theory Spec2Isabelle
  imports Complex_Main "HOL-Library.Multiset"
begin

section \<open>Common ground: identifiers, time, errors\<close>

text \<open>
  The repository is a set of Django model classes.  A model instance is a record of its
  declared fields, a database table is the list of its rows, and every method that reads
  or writes the database takes the tables it touches and returns them updated.

  \<^item> A UUID primary key is a natural number.  \<open>uuid.uuid4()\<close> is a choice the caller of the
    model makes: every function that creates a row takes the new key as an argument, and
    the insert fails with \<open>IntegrityError\<close> when the key is already in the table.
  \<^item> A \<open>datetime\<close> is the number of microseconds since 0001-01-01T00:00:00;
    \<open>timezone.now()\<close> is an argument \<open>now\<close> of the function that calls it, and the
    clock readings within one call (an explicit \<open>timezone.now()\<close>, the \<open>auto_now\<close> and
    \<open>auto_now_add\<close> columns of the rows it writes) are the same instant.
  \<^item> A foreign key is the key of the row it points to; a nullable column is an \<open>option\<close>.
  \<^item> An exception is a value of type \<open>error\<close>; a function that can raise after it has
    written returns the error together with the state it leaves behind.
  \<^item> The database enforces what the field declarations say: primary keys are unique and a
    column without \<open>null=True\<close> rejects \<open>NULL\<close>.  Storage conversions of a backend
    (quantising a decimal to the column's scale, truncating or rejecting long strings) and
    transactions around a request are not part of the model: every write is committed as
    it is made, which is Django's autocommit default.
\<close>

type_synonym uuid = nat
type_synonym datetime = int

datatype error =
    ValidationError string
  | IntegrityError
  | DatabaseError
  | OverflowError
  | DoesNotExist

section \<open>core/models.py: BaseModel\<close>

text \<open>
  \<open>BaseModel\<close> is abstract; a subclass adds its own fields, which live in the extension
  part of the record.  The field \<open>id\<close> is called \<open>pk\<close> here.
\<close>

record BaseModel =
  pk :: uuid
  created_at :: datetime
  updated_at :: datetime
  created_by :: "uuid option"
  updated_by :: "uuid option"
  deleted_at :: "datetime option"
  deleted_by :: "uuid option"

text \<open>
  The columns of \<open>BaseModel\<close> by name, for \<open>update_fields\<close>.
\<close>

definition set_column :: "string \<Rightarrow> 'a BaseModel_scheme \<Rightarrow> 'a BaseModel_scheme \<Rightarrow> 'a BaseModel_scheme" where
  "set_column f inst row =
     (if f = ''created_at'' then row\<lparr>created_at := created_at inst\<rparr>
      else if f = ''updated_at'' then row\<lparr>updated_at := updated_at inst\<rparr>
      else if f = ''created_by'' then row\<lparr>created_by := created_by inst\<rparr>
      else if f = ''updated_by'' then row\<lparr>updated_by := updated_by inst\<rparr>
      else if f = ''deleted_at'' then row\<lparr>deleted_at := deleted_at inst\<rparr>
      else if f = ''deleted_by'' then row\<lparr>deleted_by := deleted_by inst\<rparr>
      else row)"

text \<open>
  Django's \<open>Model.save(update_fields=[...])\<close> for a model whose primary key has a
  default, as \<open>id = UUIDField(default=uuid.uuid4)\<close> gives every model here.  An instance
  carries the flag \<open>_state.adding\<close>: true until it has been saved or loaded.
  \<^item> An empty \<open>update_fields\<close> returns at once.
  \<^item> The receivers of the \<open>pre_save\<close> signal of the class run on the instance,
    \<open>pre_save\<close>; a class without receivers has \<open>Inr\<close>.
  \<^item> An instance that is still \<open>adding\<close> is inserted, the whole row whatever
    \<open>update_fields\<close> says: \<open>auto_now_add\<close> and \<open>auto_now\<close> set \<open>created_at\<close> and
    \<open>updated_at\<close> on the instance, and the insert raises \<open>IntegrityError\<close> when the key is
    taken or when the constraints that the class declares on its own columns (\<open>unique\<close>,
    a foreign key) refuse the row beside the rows of the table, \<open>accepts\<close>.
  \<^item> Any other instance updates the named columns of the row with its key, and Django
    raises \<open>DatabaseError\<close> when that touches no row.

  The result is the outcome, the instance, its flag and the table afterwards.
\<close>

type_synonym 'a save_method =
  "string list \<Rightarrow> 'a BaseModel_scheme \<Rightarrow> bool \<Rightarrow> 'a BaseModel_scheme list
   \<Rightarrow> (error + unit) \<times> 'a BaseModel_scheme \<times> bool \<times> 'a BaseModel_scheme list"

definition Model_save ::
  "('a BaseModel_scheme \<Rightarrow> error + 'a BaseModel_scheme)
   \<Rightarrow> ('a BaseModel_scheme \<Rightarrow> 'a BaseModel_scheme list \<Rightarrow> bool) \<Rightarrow> datetime \<Rightarrow> 'a save_method" where
  "Model_save pre_save accepts now update_fields self adding tbl =
     (if update_fields = [] then (Inr (), self, adding, tbl)
      else
        (case pre_save self of
           Inl e \<Rightarrow> (Inl e, self, adding, tbl)
         | Inr self0 \<Rightarrow>
             if adding
             then (let self1 = self0\<lparr>created_at := now\<rparr>;
                       self2 = self1\<lparr>updated_at := now\<rparr>
                   in if (\<exists>r \<in> set tbl. pk r = pk self2) \<or> \<not> accepts self2 tbl
                      then (Inl IntegrityError, self2, True, tbl)
                      else (Inr (), self2, False, tbl @ [self2]))
             else if \<exists>r \<in> set tbl. pk r = pk self0
             then (Inr (), self0, False,
                   map (\<lambda>r. if pk r = pk self0
                            then fold (\<lambda>f. set_column f self0) update_fields r else r) tbl)
             else (Inl DatabaseError, self0, False, tbl)))"

text \<open>
  \<open>soft_delete\<close> and \<open>restore\<close> assign the two attributes of the instance and call
  \<open>self.save(update_fields=['deleted_at', 'deleted_by'])\<close>.  \<open>self.save\<close> is the method
  of the instance's class, the argument \<open>save\<close>: \<open>Model_save\<close> for a class that does not
  override it, the class's own method (\<open>Asset_save\<close> below) for one that does.
\<close>

definition soft_delete ::
  "'a save_method \<Rightarrow> datetime \<Rightarrow> uuid option \<Rightarrow> 'a BaseModel_scheme \<Rightarrow> bool \<Rightarrow> 'a BaseModel_scheme list
   \<Rightarrow> (error + unit) \<times> 'a BaseModel_scheme \<times> bool \<times> 'a BaseModel_scheme list" where
  "soft_delete save now user_id self adding tbl =
     (let self1 = self\<lparr>deleted_at := Some now\<rparr>;
          self2 = self1\<lparr>deleted_by := user_id\<rparr>
      in save [''deleted_at'', ''deleted_by''] self2 adding tbl)"

definition restore ::
  "'a save_method \<Rightarrow> 'a BaseModel_scheme \<Rightarrow> bool \<Rightarrow> 'a BaseModel_scheme list
   \<Rightarrow> (error + unit) \<times> 'a BaseModel_scheme \<times> bool \<times> 'a BaseModel_scheme list" where
  "restore save self adding tbl =
     (let self1 = self\<lparr>deleted_at := None\<rparr>;
          self2 = self1\<lparr>deleted_by := None\<rparr>
      in save [''deleted_at'', ''deleted_by''] self2 adding tbl)"

definition is_deleted :: "'a BaseModel_scheme \<Rightarrow> bool" where
  "is_deleted self = (deleted_at self \<noteq> None)"

text \<open>
  \<open>restore\<close> called on what \<open>soft_delete\<close> left behind; an exception of \<open>soft_delete\<close>
  ends the run.
\<close>

definition soft_delete_then_restore ::
  "'a save_method \<Rightarrow> datetime \<Rightarrow> uuid option \<Rightarrow> 'a BaseModel_scheme \<Rightarrow> bool \<Rightarrow> 'a BaseModel_scheme list
   \<Rightarrow> (error + unit) \<times> 'a BaseModel_scheme \<times> bool \<times> 'a BaseModel_scheme list" where
  "soft_delete_then_restore save now user_id self adding tbl =
     (case soft_delete save now user_id self adding tbl of
        (Inl e, self', adding', tbl') \<Rightarrow> (Inl e, self', adding', tbl')
      | (Inr _, self', adding', tbl') \<Rightarrow> restore save self' adding' tbl')"

text \<open>Two rows of a model without fields of its own, for the concrete runs below.\<close>

definition example_row :: BaseModel where
  "example_row = \<lparr>pk = 7, created_at = 100, updated_at = 100, created_by = None,
                   updated_by = None, deleted_at = None, deleted_by = None\<rparr>"

definition example_other_row :: BaseModel where
  "example_other_row = \<lparr>pk = 8, created_at = 50, updated_at = 60, created_by = Some 3,
                         updated_by = None, deleted_at = Some 70, deleted_by = Some 3\<rparr>"

section \<open>users/models.py: the columns the approval code reads\<close>

text \<open>
  Outside \<open>BaseModel\<close> a field \<open>f\<close> of a model is named with the model's prefix
  (\<open>u_\<close> for \<open>User\<close>, \<open>ur_\<close> for \<open>UserRole\<close>, \<open>a_\<close> for \<open>Approval\<close>, \<open>h_\<close> for
  \<open>ApprovalHistory\<close>, and so on) where two models share the name.
\<close>

record User =
  u_id :: uuid
  u_is_active :: bool
  u_department :: "uuid option"

record UserRole =
  ur_id :: uuid
  ur_user :: uuid
  ur_role :: uuid

section \<open>approvals/models.py\<close>

record ApprovalWorkflow = BaseModel +
  workflow_name :: string
  wf_entity_type :: string
  wf_is_active :: bool
  is_default :: bool
  min_value :: "rat option"
  max_value :: "rat option"

record ApprovalWorkflowStep = BaseModel +
  step_workflow :: uuid
  step_sequence :: int
  step_name :: string
  approver_role :: "uuid option"
  approver_user :: "uuid option"
  timeout_hours :: "int option"
  escalation_role :: "uuid option"

record Approval =
  a_id :: uuid
  entity_type :: string
  entity_id :: uuid
  entity_number :: "string option"
  a_workflow :: "uuid option"
  current_step_sequence :: "int option"
  requested_by :: uuid
  requested_at :: datetime
  a_status :: string
  completed_at :: "datetime option"
  a_remarks :: "string option"
  a_metadata :: "rat option"
  a_created_at :: datetime
  a_updated_at :: datetime

record ApprovalHistory =
  h_id :: uuid
  h_approval :: uuid
  h_step_sequence :: int
  h_approver_role :: "uuid option"
  h_approver_user :: uuid
  h_action :: string
  h_action_date :: datetime
  h_delegated_to_user :: "uuid option"
  h_comments :: "string option"
  h_ip_address :: "string option"
  h_created_at :: datetime

text \<open>
  The tables the approval code works on.  A table lists its rows in the order an
  unordered query returns them; an explicit \<open>order_by\<close> on an integer or time column is
  modelled by sorting.  A foreign key is taken to point to an existing row.
\<close>

record db =
  users :: "User list"
  user_roles :: "UserRole list"
  approval_workflows :: "ApprovalWorkflow list"
  approval_workflow_steps :: "ApprovalWorkflowStep list"
  approvals :: "Approval list"
  approval_history :: "ApprovalHistory list"

text \<open>\<open>QuerySet.first()\<close>: the first row, or \<open>None\<close>.\<close>

definition first :: "'a list \<Rightarrow> 'a option" where
  "first xs = (case xs of [] \<Rightarrow> None | x # _ \<Rightarrow> Some x)"

subsection \<open>ApprovalWorkflow\<close>

text \<open>\<open>get_steps\<close>: \<open>self.steps.filter(deleted_at__isnull=True).order_by('step_sequence')\<close>.\<close>

definition get_steps :: "db \<Rightarrow> uuid \<Rightarrow> ApprovalWorkflowStep list" where
  "get_steps d wfid =
     sort_key step_sequence
       (filter (\<lambda>s. step_workflow s = wfid \<and> deleted_at s = None) (approval_workflow_steps d))"

text \<open>
  \<open>applies_to_value\<close>.  \<open>if self.min_value and ...\<close> is Python truth: a bound that is
  \<open>None\<close> or zero is no bound.
\<close>

definition truthy :: "rat option \<Rightarrow> bool" where
  "truthy v = (case v of None \<Rightarrow> False | Some x \<Rightarrow> x \<noteq> 0)"

definition applies_to_value :: "ApprovalWorkflow \<Rightarrow> rat \<Rightarrow> bool" where
  "applies_to_value self v =
     (if truthy (min_value self) \<and> v < the (min_value self) then False
      else if truthy (max_value self) \<and> v > the (max_value self) then False
      else True)"

subsection \<open>ApprovalWorkflowStep\<close>

text \<open>
  \<open>get_approvers\<close>: the active user \<open>approver_user\<close> when it is set, else the active
  users with a \<open>UserRole\<close> row for \<open>approver_role\<close> (\<open>distinct()\<close>: each user once), else
  nobody.
\<close>

definition get_approvers :: "db \<Rightarrow> ApprovalWorkflowStep \<Rightarrow> User list" where
  "get_approvers d self =
     (case approver_user self of
        Some uid \<Rightarrow> filter (\<lambda>u. u_id u = uid \<and> u_is_active u) (users d)
      | None \<Rightarrow>
          (case approver_role self of
             Some rid \<Rightarrow>
               filter (\<lambda>u. (\<exists>ur \<in> set (user_roles d). ur_user ur = u_id u \<and> ur_role ur = rid)
                            \<and> u_is_active u) (users d)
           | None \<Rightarrow> []))"

subsection \<open>Approval\<close>

text \<open>
  \<open>Model.save()\<close> of an \<open>Approval\<close>: \<open>updated_at\<close> is \<open>auto_now\<close>; the row with the
  instance's key is replaced, and inserted when there is none.
\<close>

definition Approval_save :: "datetime \<Rightarrow> Approval \<Rightarrow> db \<Rightarrow> Approval \<times> db" where
  "Approval_save now self d =
     (let self' = self\<lparr>a_updated_at := now\<rparr>
      in (self',
          d\<lparr>approvals :=
               (if \<exists>r \<in> set (approvals d). a_id r = a_id self
                then map (\<lambda>r. if a_id r = a_id self then self' else r) (approvals d)
                else approvals d @ [self'])\<rparr>))"

text \<open>
  \<open>get_current_step\<close>.  \<open>not self.current_step_sequence\<close> is true for \<open>None\<close> and
  for \<open>0\<close>.  The query is not restricted to steps that are not soft-deleted.
\<close>

definition get_current_step :: "db \<Rightarrow> Approval \<Rightarrow> ApprovalWorkflowStep option" where
  "get_current_step d self =
     (case a_workflow self of
        None \<Rightarrow> None
      | Some wfid \<Rightarrow>
          (case current_step_sequence self of
             None \<Rightarrow> None
           | Some c \<Rightarrow>
               if c = 0 then None
               else first (filter (\<lambda>s. step_workflow s = wfid \<and> step_sequence s = c)
                             (approval_workflow_steps d))))"

definition get_pending_approvers :: "db \<Rightarrow> Approval \<Rightarrow> User list" where
  "get_pending_approvers d self =
     (case get_current_step d self of None \<Rightarrow> [] | Some current_step \<Rightarrow> get_approvers d current_step)"

text \<open>
  \<open>advance_to_next_step\<close> returns its boolean, the instance and the database afterwards.
  A model instance is always true in Python, so \<open>if first_step\<close> and \<open>if next_step\<close>
  test for \<open>None\<close>.
\<close>

definition advance_to_next_step :: "datetime \<Rightarrow> Approval \<Rightarrow> db \<Rightarrow> bool \<times> Approval \<times> db" where
  "advance_to_next_step now self d =
     (case a_workflow self of
        None \<Rightarrow> (False, self, d)
      | Some wfid \<Rightarrow>
          (let steps = get_steps d wfid in
           case current_step_sequence self of
             None \<Rightarrow>
               (case first steps of
                  Some first_step \<Rightarrow>
                    (let self1 = self\<lparr>current_step_sequence := Some (step_sequence first_step)\<rparr>;
                         self2 = self1\<lparr>a_status := ''IN_PROGRESS''\<rparr>;
                         (self3, d') = Approval_save now self2 d
                     in (True, self3, d'))
                | None \<Rightarrow> (False, self, d))
           | Some cur \<Rightarrow>
               (case first (filter (\<lambda>s. step_sequence s > cur) steps) of
                  Some next_step \<Rightarrow>
                    (let self1 = self\<lparr>current_step_sequence := Some (step_sequence next_step)\<rparr>;
                         (self2, d') = Approval_save now self1 d
                     in (True, self2, d'))
                | None \<Rightarrow>
                    (let self1 = self\<lparr>a_status := ''APPROVED''\<rparr>;
                         self2 = self1\<lparr>completed_at := Some now\<rparr>;
                         (self3, d') = Approval_save now self2 d
                     in (False, self3, d')))))"

subsection \<open>ApprovalHistory\<close>

text \<open>
  \<open>ApprovalHistory.objects.create(...)\<close> with the keyword arguments the code passes; an
  argument it leaves out is \<open>None\<close>.  \<open>step_sequence\<close> and \<open>approver_user\<close> are declared
  without \<open>null=True\<close>, so the insert raises \<open>IntegrityError\<close> when one of them is
  \<open>None\<close>, as it does when the new key is taken.  \<open>action_date\<close> and \<open>created_at\<close> are
  \<open>auto_now_add\<close>.
\<close>

definition ApprovalHistory_create ::
  "datetime \<Rightarrow> uuid \<Rightarrow> uuid \<Rightarrow> int option \<Rightarrow> uuid option \<Rightarrow> uuid option \<Rightarrow> string
   \<Rightarrow> string option \<Rightarrow> string option \<Rightarrow> db \<Rightarrow> error + db" where
  "ApprovalHistory_create now new_id approval step_seq role user action comments ip d =
     (case step_seq of
        None \<Rightarrow> Inl IntegrityError
      | Some sq \<Rightarrow>
          (case user of
             None \<Rightarrow> Inl IntegrityError
           | Some uid \<Rightarrow>
               if \<exists>r \<in> set (approval_history d). h_id r = new_id then Inl IntegrityError
               else Inr (d\<lparr>approval_history := approval_history d @
                     [\<lparr>h_id = new_id, h_approval = approval, h_step_sequence = sq,
                       h_approver_role = role, h_approver_user = uid, h_action = action,
                       h_action_date = now, h_delegated_to_user = None, h_comments = comments,
                       h_ip_address = ip, h_created_at = now\<rparr>]\<rparr>)))"

text \<open>
  \<open>reject\<close>, \<open>cancel\<close> and \<open>escalate\<close> save the approval first and create the history
  row afterwards; the result is the outcome, the instance and the database afterwards.
  \<open>escalate\<close> passes no \<open>approver_user\<close>.  The text of the comment it writes names the
  role; the role table is not modelled and the comment is the fixed prefix.
\<close>

definition reject :: "datetime \<Rightarrow> uuid \<Rightarrow> Approval \<Rightarrow> uuid \<Rightarrow> string option \<Rightarrow> db
    \<Rightarrow> (error + unit) \<times> Approval \<times> db" where
  "reject now new_id self user comments d =
     (let self1 = self\<lparr>a_status := ''REJECTED''\<rparr>;
          self2 = self1\<lparr>completed_at := Some now\<rparr>;
          (self3, d1) = Approval_save now self2 d
      in case ApprovalHistory_create now new_id (a_id self3) (current_step_sequence self3)
                None (Some user) ''REJECTED'' comments None d1 of
           Inl e \<Rightarrow> (Inl e, self3, d1)
         | Inr d2 \<Rightarrow> (Inr (), self3, d2))"

definition cancel :: "datetime \<Rightarrow> uuid \<Rightarrow> Approval \<Rightarrow> uuid \<Rightarrow> string option \<Rightarrow> db
    \<Rightarrow> (error + unit) \<times> Approval \<times> db" where
  "cancel now new_id self user reason d =
     (let self1 = self\<lparr>a_status := ''CANCELLED''\<rparr>;
          self2 = self1\<lparr>completed_at := Some now\<rparr>;
          (self3, d1) = Approval_save now self2 d
      in case ApprovalHistory_create now new_id (a_id self3) (current_step_sequence self3)
                None (Some user) ''CANCELLED'' reason None d1 of
           Inl e \<Rightarrow> (Inl e, self3, d1)
         | Inr d2 \<Rightarrow> (Inr (), self3, d2))"

definition escalate :: "datetime \<Rightarrow> uuid \<Rightarrow> Approval \<Rightarrow> db \<Rightarrow> (error + bool) \<times> Approval \<times> db" where
  "escalate now new_id self d =
     (case get_current_step d self of
        None \<Rightarrow> (Inr False, self, d)
      | Some current_step \<Rightarrow>
          (case escalation_role current_step of
             None \<Rightarrow> (Inr False, self, d)
           | Some role \<Rightarrow>
               (let self1 = self\<lparr>a_status := ''ESCALATED''\<rparr>;
                    (self2, d1) = Approval_save now self1 d
                in case ApprovalHistory_create now new_id (a_id self2) (current_step_sequence self2)
                          None None ''ESCALATED'' (Some ''Escalated due to timeout'') None d1 of
                     Inl e \<Rightarrow> (Inl e, self2, d1)
                   | Inr d2 \<Rightarrow> (Inr True, self2, d2))))"

text \<open>
  Time.  \<open>timedelta(hours=h)\<close> raises \<open>OverflowError\<close> beyond 999999999 days, and
  \<open>datetime + timedelta\<close> raises it outside the years 1 to 9999.
\<close>

definition us_per_hour :: int where
  "us_per_hour = 3600000000"

definition us_per_day :: int where
  "us_per_day = 86400000000"

definition datetime_max :: int where
  "datetime_max = 3652059 * us_per_day - 1"

definition timedelta_hours :: "int \<Rightarrow> error + int" where
  "timedelta_hours h =
     (let us = h * us_per_hour
      in if us div us_per_day < - 999999999 \<or> us div us_per_day > 999999999
         then Inl OverflowError else Inr us)"

definition datetime_add :: "datetime \<Rightarrow> int \<Rightarrow> error + datetime" where
  "datetime_add t delta =
     (if t + delta < 0 \<or> t + delta > datetime_max then Inl OverflowError else Inr (t + delta))"

text \<open>
  \<open>order_by('-action_date').first()\<close>: a row with the greatest \<open>action_date\<close>
  (the first such row of the table).  \<open>reference_time\<close> is the local variable of that
  name in \<open>check_timeout\<close>; \<open>not current_step.timeout_hours\<close> is true for \<open>None\<close> and
  for \<open>0\<close>.
\<close>

fun latest :: "ApprovalHistory list \<Rightarrow> ApprovalHistory option" where
  "latest [] = None"
| "latest (x # xs) =
     (case latest xs of
        None \<Rightarrow> Some x
      | Some y \<Rightarrow> if h_action_date y > h_action_date x then Some y else Some x)"

definition reference_time :: "Approval \<Rightarrow> db \<Rightarrow> datetime" where
  "reference_time self d =
     (let last_action =
            latest (filter (\<lambda>r. h_approval r = a_id self
                               \<and> Some (h_step_sequence r) = current_step_sequence self)
                      (approval_history d))
      in case last_action of Some la \<Rightarrow> h_action_date la | None \<Rightarrow> requested_at self)"

definition check_timeout :: "datetime \<Rightarrow> Approval \<Rightarrow> db \<Rightarrow> error + bool" where
  "check_timeout now self d =
     (case get_current_step d self of
        None \<Rightarrow> Inr False
      | Some current_step \<Rightarrow>
          (case timeout_hours current_step of
             None \<Rightarrow> Inr False
           | Some h \<Rightarrow>
               if h = 0 then Inr False
               else
                 (case timedelta_hours h of
                    Inl e \<Rightarrow> Inl e
                  | Inr delta \<Rightarrow>
                      (case datetime_add (reference_time self d) delta of
                         Inl e \<Rightarrow> Inl e
                       | Inr timeout_time \<Rightarrow> Inr (now > timeout_time)))))"

subsection \<open>Helper functions\<close>

text \<open>
  \<open>create_approval\<close>.  The workflows of the entity type come in the order of the
  table.  \<open>if value\<close> is Python truth: \<open>None\<close> and zero do not filter.  The result is
  the approval or the error, and the database afterwards.
\<close>

definition create_approval ::
  "datetime \<Rightarrow> uuid \<Rightarrow> string \<Rightarrow> uuid \<Rightarrow> string option \<Rightarrow> uuid \<Rightarrow> rat option \<Rightarrow> string option
   \<Rightarrow> db \<Rightarrow> (error + Approval) \<times> db" where
  "create_approval now new_id etype eid enumber req_by val rmk d =
     (let workflows0 = filter (\<lambda>w. wf_entity_type w = etype \<and> wf_is_active w \<and> deleted_at w = None)
                         (approval_workflows d);
          workflows = (if truthy val then filter (\<lambda>w. applies_to_value w (the val)) workflows0
                       else workflows0);
          workflow = (case first (filter is_default workflows) of
                        Some w \<Rightarrow> Some w
                      | None \<Rightarrow> first workflows)
      in case workflow of
           None \<Rightarrow> (Inl (ValidationError (''No active workflow found for '' @ etype)), d)
         | Some w \<Rightarrow>
             if \<exists>r \<in> set (approvals d). a_id r = new_id then (Inl IntegrityError, d)
             else
               (let approval = \<lparr>a_id = new_id, entity_type = etype, entity_id = eid,
                                 entity_number = enumber, a_workflow = Some (pk w),
                                 current_step_sequence = None, requested_by = req_by,
                                 requested_at = now, a_status = ''PENDING'', completed_at = None,
                                 a_remarks = rmk,
                                 a_metadata = (if truthy val then val else None),
                                 a_created_at = now, a_updated_at = now\<rparr>;
                    d1 = d\<lparr>approvals := approvals d @ [approval]\<rparr>;
                    (b, approval', d2) = advance_to_next_step now approval d1
                in (Inr approval', d2)))"

text \<open>
  \<open>approve_step\<close>.  \<open>user not in current_step.get_approvers()\<close> compares primary keys.
\<close>

definition approve_step ::
  "datetime \<Rightarrow> uuid \<Rightarrow> Approval \<Rightarrow> uuid \<Rightarrow> string option \<Rightarrow> string option \<Rightarrow> db
   \<Rightarrow> (error + bool) \<times> Approval \<times> db" where
  "approve_step now new_id approval user comments ip d =
     (case get_current_step d approval of
        None \<Rightarrow> (Inl (ValidationError ''No current step to approve''), approval, d)
      | Some current_step \<Rightarrow>
          if \<not> (\<exists>u \<in> set (get_approvers d current_step). u_id u = user)
          then (Inl (ValidationError ''User is not authorized to approve this step''), approval, d)
          else
            (case ApprovalHistory_create now new_id (a_id approval) (current_step_sequence approval)
                    (approver_role current_step) (Some user) ''APPROVED'' comments ip d of
               Inl e \<Rightarrow> (Inl e, approval, d)
             | Inr d1 \<Rightarrow>
                 (let (advanced, approval', d2) = advance_to_next_step now approval d1
                  in (Inr (\<not> advanced), approval', d2))))"

section \<open>approvals/signals.py\<close>

record PurchaseRequest = BaseModel +
  pr_number :: string
  requester :: uuid
  pr_status :: string
  justification :: "string option"
  total_estimated_value :: "rat option"

text \<open>
  The \<open>post_save\<close> receiver of \<open>PurchaseRequest\<close>.  It returns nothing and swallows every
  exception of \<open>create_approval\<close>; what it leaves is the database.
\<close>

definition auto_create_pr_approval :: "datetime \<Rightarrow> uuid \<Rightarrow> PurchaseRequest \<Rightarrow> db \<Rightarrow> db" where
  "auto_create_pr_approval now new_id instance d =
     (if pr_status instance = ''SUBMITTED''
      then
        (if \<exists>r \<in> set (approvals d). entity_type r = ''PR'' \<and> entity_id r = pk instance
         then d
         else snd (create_approval now new_id ''PR'' (pk instance) (Some (pr_number instance))
                     (requester instance) (total_estimated_value instance)
                     (justification instance) d))
      else d)"

text \<open>
  Saving the purchase request several times: each save sends \<open>post_save\<close> once, with
  its own clock reading and its own candidate key for the approval.
\<close>

fun post_saves :: "(datetime \<times> uuid \<times> PurchaseRequest) list \<Rightarrow> db \<Rightarrow> db" where
  "post_saves [] d = d"
| "post_saves ((now, new_id, instance) # rest) d =
     post_saves rest (auto_create_pr_approval now new_id instance d)"


text \<open>A small database for the concrete runs below.\<close>

definition example_step1 :: ApprovalWorkflowStep where
  "example_step1 = \<lparr>pk = 201, created_at = 0, updated_at = 0, created_by = None, updated_by = None,
     deleted_at = None, deleted_by = None, step_workflow = 100, step_sequence = 1,
     step_name = ''Department head'', approver_role = None, approver_user = Some 1,
     timeout_hours = Some 24, escalation_role = Some 60\<rparr>"

definition example_step2 :: ApprovalWorkflowStep where
  "example_step2 = \<lparr>pk = 202, created_at = 0, updated_at = 0, created_by = None, updated_by = None,
     deleted_at = None, deleted_by = None, step_workflow = 100, step_sequence = 2,
     step_name = ''Finance'', approver_role = Some 50, approver_user = None,
     timeout_hours = None, escalation_role = None\<rparr>"

definition example_step3 :: ApprovalWorkflowStep where
  "example_step3 = \<lparr>pk = 203, created_at = 0, updated_at = 0, created_by = None, updated_by = None,
     deleted_at = Some 5, deleted_by = None, step_workflow = 100, step_sequence = 3,
     step_name = ''Board'', approver_role = Some 50, approver_user = None,
     timeout_hours = None, escalation_role = None\<rparr>"

definition example_workflow :: ApprovalWorkflow where
  "example_workflow = \<lparr>pk = 100, created_at = 0, updated_at = 0, created_by = None, updated_by = None,
     deleted_at = None, deleted_by = None, workflow_name = ''Standard PR Approval'',
     wf_entity_type = ''PR'', wf_is_active = True, is_default = True,
     min_value = None, max_value = None\<rparr>"

definition example_approval :: Approval where
  "example_approval = \<lparr>a_id = 300, entity_type = ''PR'', entity_id = 400,
     entity_number = Some ''PR-2025-0001'', a_workflow = Some 100, current_step_sequence = Some 1,
     requested_by = 2, requested_at = 1000, a_status = ''IN_PROGRESS'', completed_at = None,
     a_remarks = None, a_metadata = None, a_created_at = 1000, a_updated_at = 1000\<rparr>"

definition example_db :: db where
  "example_db = \<lparr>users = [\<lparr>u_id = 1, u_is_active = True, u_department = Some 80\<rparr>,
                             \<lparr>u_id = 2, u_is_active = True, u_department = None\<rparr>,
                             \<lparr>u_id = 3, u_is_active = False, u_department = None\<rparr>],
     user_roles = [\<lparr>ur_id = 1, ur_user = 2, ur_role = 50\<rparr>, \<lparr>ur_id = 2, ur_user = 3, ur_role = 50\<rparr>],
     approval_workflows = [example_workflow],
     approval_workflow_steps = [example_step3, example_step2, example_step1],
     approvals = [example_approval],
     approval_history = []\<rparr>"

text \<open>
  Timeout detection as the specification words it, to be compared with
  \<open>check_timeout\<close>: the step of the approval's workflow with the current sequence number
  exists, its \<open>timeout_hours\<close> is not null, and the current time is after the reference
  time plus that many hours.
\<close>

definition claimed_check_timeout :: "datetime \<Rightarrow> Approval \<Rightarrow> db \<Rightarrow> bool" where
  "claimed_check_timeout now self d =
     (case a_workflow self of
        None \<Rightarrow> False
      | Some wfid \<Rightarrow>
          (case current_step_sequence self of
             None \<Rightarrow> False
           | Some c \<Rightarrow>
               (case first (filter (\<lambda>s. step_workflow s = wfid \<and> step_sequence s = c)
                              (approval_workflow_steps d)) of
                  None \<Rightarrow> False
                | Some step \<Rightarrow>
                    (case timeout_hours step of
                       None \<Rightarrow> False
                     | Some h \<Rightarrow> now > reference_time self d + h * us_per_hour))))"

text \<open>The example workflow with a first step whose timeout is zero hours.\<close>

definition example_step_no_wait :: ApprovalWorkflowStep where
  "example_step_no_wait = example_step1\<lparr>timeout_hours := Some 0\<rparr>"

definition example_db_no_wait :: db where
  "example_db_no_wait = example_db\<lparr>approval_workflow_steps := [example_step_no_wait]\<rparr>"

text \<open>
  The approver set of a step as the specification words it: the specific
  \<open>approver_user\<close> when it is set, otherwise the active users that hold
  \<open>approver_role\<close>.  \<open>get_approvers\<close> also asks the specific user to be active.
\<close>

definition claimed_approvers :: "db \<Rightarrow> ApprovalWorkflowStep \<Rightarrow> uuid set" where
  "claimed_approvers d step =
     (case approver_user step of
        Some uid \<Rightarrow> {uid}
      | None \<Rightarrow>
          (case approver_role step of
             Some rid \<Rightarrow>
               set (map u_id (filter (\<lambda>u. u_is_active u
                     \<and> (\<exists>ur \<in> set (user_roles d). ur_user ur = u_id u \<and> ur_role ur = rid)) (users d)))
           | None \<Rightarrow> {}))"

text \<open>
  The approvals of the purchase request with key \<open>p\<close>, and a purchase request and a
  database without approvals for the concrete runs below.
\<close>

definition pr_approvals :: "uuid \<Rightarrow> db \<Rightarrow> Approval list" where
  "pr_approvals p d = filter (\<lambda>r. entity_type r = ''PR'' \<and> entity_id r = p) (approvals d)"

definition example_pr :: PurchaseRequest where
  "example_pr = \<lparr>pk = 400, created_at = 900, updated_at = 900, created_by = None, updated_by = None,
     deleted_at = None, deleted_by = None, pr_number = ''PR-2025-0001'', requester = 2,
     pr_status = ''SUBMITTED'', justification = None, total_estimated_value = Some 1500\<rparr>"

definition example_db_no_approval :: db where
  "example_db_no_approval = example_db\<lparr>approvals := []\<rparr>"

text \<open>The row that \<open>Approval.objects.create\<close> inserts in \<open>create_approval\<close>.\<close>

definition new_approval ::
  "datetime \<Rightarrow> uuid \<Rightarrow> string \<Rightarrow> uuid \<Rightarrow> string option \<Rightarrow> uuid \<Rightarrow> rat option \<Rightarrow> string option
   \<Rightarrow> ApprovalWorkflow \<Rightarrow> Approval" where
  "new_approval now new_id etype eid enumber req_by val rmk w =
     \<lparr>a_id = new_id, entity_type = etype, entity_id = eid,
       entity_number = enumber, a_workflow = Some (pk w),
       current_step_sequence = None, requested_by = req_by,
       requested_at = now, a_status = ''PENDING'', completed_at = None,
       a_remarks = rmk, a_metadata = (if truthy val then val else None),
       a_created_at = now, a_updated_at = now\<rparr>"

section \<open>Python's \<open>decimal.Decimal\<close> and \<open>datetime.date\<close>\<close>

text \<open>
  A \<open>Decimal\<close> is modelled by its value, a rational number.  The repository never
  changes the decimal context, so every arithmetic operation rounds its exact result to
  the 28 significant digits of the default context, ties to the even digit
  (\<open>ROUND_HALF_EVEN\<close>).  Comparisons, \<open>min\<close> and \<open>max\<close> are exact.  The exponent limits of
  the context (\<open>Emax = 999999\<close>), signed zeros, \<open>NaN\<close>, infinities and the number of
  trailing zeros a \<open>Decimal\<close> carries are not modelled.  A division is modelled only
  where the code has made sure that the divisor is not zero.
\<close>

text \<open>The number of decimal digits of a positive integer.\<close>

function ndigits :: "int \<Rightarrow> nat" where
  "ndigits n = (if n < 10 then 1 else Suc (ndigits (n div 10)))"
  by pat_completeness auto
termination
  by (relation "measure nat") auto

declare ndigits.simps [simp del]

definition pow10 :: "int \<Rightarrow> rat" where
  "pow10 e = (if 0 \<le> e then 10 ^ nat e else 1 / 10 ^ nat (- e))"

text \<open>The exponent of the leading digit of a positive number: \<open>10^e \<le> x < 10^(e+1)\<close>.\<close>

definition adjusted :: "rat \<Rightarrow> int" where
  "adjusted x =
     (if 1 \<le> x then int (ndigits \<lfloor>x\<rfloor>) - 1
      else (let a = - int (ndigits \<lfloor>1 / x\<rfloor>)
            in if pow10 (a + 1) \<le> x then a + 1 else a))"

definition round_half_even :: "rat \<Rightarrow> int" where
  "round_half_even q =
     (let f = \<lfloor>q\<rfloor>; r = q - of_int f
      in if r < 1 / 2 then f
         else if r > 1 / 2 then f + 1
         else if even f then f else f + 1)"

definition prec :: int where
  "prec = 28"

definition context_round :: "rat \<Rightarrow> rat" where
  "context_round x =
     (if x = 0 then 0
      else (let e = adjusted \<bar>x\<bar> - (prec - 1);
                c = round_half_even (\<bar>x\<bar> / pow10 e)
            in sgn x * of_int c * pow10 e))"

definition dec_add :: "rat \<Rightarrow> rat \<Rightarrow> rat" where
  "dec_add a b = context_round (a + b)"

definition dec_sub :: "rat \<Rightarrow> rat \<Rightarrow> rat" where
  "dec_sub a b = context_round (a - b)"

definition dec_mul :: "rat \<Rightarrow> rat \<Rightarrow> rat" where
  "dec_mul a b = context_round (a * b)"

definition dec_div :: "rat \<Rightarrow> rat \<Rightarrow> rat" where
  "dec_div a b = context_round (a / b)"

text \<open>\<open>int(x)\<close> of a \<open>Decimal\<close> truncates towards zero.\<close>

definition py_int :: "rat \<Rightarrow> int" where
  "py_int x = (if 0 \<le> x then \<lfloor>x\<rfloor> else \<lceil>x\<rceil>)"

text \<open>
  \<open>sum(...)\<close> over decimals: the built-in starts from the integer \<open>0\<close> and adds from
  the left, each addition rounded by the context.
\<close>

definition py_sum :: "rat list \<Rightarrow> rat" where
  "py_sum xs = foldl dec_add 0 xs"

text \<open>
  A value of a \<open>DecimalField(max_digits, decimal_places)\<close> column as the database holds
  it: an integer number of units \<open>10^(- decimal_places)\<close> with at most \<open>max_digits\<close>
  digits.
\<close>

definition decimal_column :: "nat \<Rightarrow> nat \<Rightarrow> rat \<Rightarrow> bool" where
  "decimal_column max_digits decimal_places x =
     (let k = x * 10 ^ decimal_places
      in k = of_int \<lfloor>k\<rfloor> \<and> \<bar>k\<bar> < 10 ^ max_digits)"

text \<open>
  A \<open>date\<close> with \<open>toordinal\<close> of the proleptic Gregorian calendar, as Python's
  \<open>datetime\<close> computes it; the difference of two dates is the difference of their
  ordinals, in days.
\<close>

record date =
  year :: int
  month :: int
  day :: int

definition is_leap :: "int \<Rightarrow> bool" where
  "is_leap y = (y mod 4 = 0 \<and> (y mod 100 \<noteq> 0 \<or> y mod 400 = 0))"

definition days_before_year :: "int \<Rightarrow> int" where
  "days_before_year y = (y - 1) * 365 + (y - 1) div 4 - (y - 1) div 100 + (y - 1) div 400"

definition days_before_month :: "int \<Rightarrow> int \<Rightarrow> int" where
  "days_before_month y m =
     [0, 31, 59, 90, 120, 151, 181, 212, 243, 273, 304, 334] ! nat (m - 1)
     + (if m > 2 \<and> is_leap y then 1 else 0)"

definition toordinal :: "date \<Rightarrow> int" where
  "toordinal dt = days_before_year (year dt) + days_before_month (year dt) (month dt) + day dt"

section \<open>assets/models.py: depreciation\<close>

record Asset = BaseModel +
  asset_tag :: string
  current_status :: string
  assigned_to_user :: "uuid option"
  assigned_to_department :: "uuid option"
  purchase_date :: "date option"
  purchase_price :: "rat option"
  depreciation_method :: string
  useful_life_years :: "int option"
  salvage_value :: "rat option"
  current_book_value :: "rat option"
  accumulated_depreciation :: rat

text \<open>\<open>_calculate_years_since_purchase\<close>, with \<open>timezone.now().date()\<close> as \<open>today\<close>.\<close>

definition calculate_years_since_purchase :: "date \<Rightarrow> Asset \<Rightarrow> rat" where
  "calculate_years_since_purchase today self =
     (case purchase_date self of
        None \<Rightarrow> 0
      | Some pd \<Rightarrow> dec_div (of_int (toordinal today - toordinal pd)) (1461 / 4))"

text \<open>
  The loop of the declining balance method, \<open>for _ in range(int(years_passed))\<close>, with
  the number of iterations left as first argument.
\<close>

fun declining_balance_loop :: "nat \<Rightarrow> rat \<Rightarrow> rat \<Rightarrow> rat \<Rightarrow> rat" where
  "declining_balance_loop 0 remaining_value rate salvage = remaining_value"
| "declining_balance_loop (Suc n) remaining_value rate salvage =
     (let depreciation = dec_mul remaining_value rate;
          remaining_value' = dec_sub remaining_value depreciation
      in if remaining_value' < salvage then salvage
         else declining_balance_loop n remaining_value' rate salvage)"

text \<open>
  \<open>calculate_depreciation\<close>.  The guard is Python truth: it returns at once for a
  missing purchase date, a purchase price that is \<open>None\<close> or zero, and a useful life
  that is \<open>None\<close> or zero.  \<open>self.salvage_value or Decimal('0')\<close> is zero for \<open>None\<close>.
\<close>

definition calculate_depreciation :: "date \<Rightarrow> Asset \<Rightarrow> Asset" where
  "calculate_depreciation today self =
     (if purchase_date self = None \<or> \<not> truthy (purchase_price self)
         \<or> useful_life_years self = None \<or> useful_life_years self = Some 0
      then self
      else
        (let cost = the (purchase_price self);
             salvage = (if truthy (salvage_value self) then the (salvage_value self) else 0);
             years_passed = calculate_years_since_purchase today self;
             life = of_int (the (useful_life_years self));
             self1 =
               (if depreciation_method self = ''STRAIGHT_LINE''
                then (let annual_depreciation = dec_div (dec_sub cost salvage) life
                      in self\<lparr>accumulated_depreciation :=
                                min (dec_mul annual_depreciation years_passed) (dec_sub cost salvage)\<rparr>)
                else if depreciation_method self = ''DECLINING_BALANCE''
                then (let rate = dec_div 2 life;
                          remaining_value =
                            declining_balance_loop (nat (py_int years_passed)) cost rate salvage
                      in self\<lparr>accumulated_depreciation := dec_sub cost remaining_value\<rparr>)
                else self)
         in self1\<lparr>current_book_value :=
                    Some (max (dec_sub cost (accumulated_depreciation self1)) salvage)\<rparr>))"

section \<open>assets/models.py and assets/signals.py: saving an asset\<close>

text \<open>
  \<open>validate_asset_assignment\<close>, the receiver of \<open>pre_save\<close> for \<open>Asset\<close>.  The two
  foreign keys hold the key of the row; reading \<open>instance.assigned_to_user\<close>,
  \<open>instance.assigned_to_department\<close> or the user's \<open>department\<close> fetches that row, and
  raises \<open>DoesNotExist\<close> when it is not there.  \<open>user_rows\<close> is the users table,
  \<open>department_ids\<close> are the keys of the departments table.  A related object is true
  in Python's sense, \<open>None\<close> is not.
\<close>

definition validate_asset_assignment :: "User list \<Rightarrow> uuid list \<Rightarrow> Asset \<Rightarrow> error + Asset" where
  "validate_asset_assignment user_rows department_ids inst =
     (case assigned_to_user inst of
        None \<Rightarrow>
          Inr (if current_status inst = ''ASSIGNED'' then inst\<lparr>current_status := ''IN_STOCK''\<rparr>
               else inst)
      | Some uid \<Rightarrow>
          (case find (\<lambda>u. u_id u = uid) user_rows of
             None \<Rightarrow> Inl DoesNotExist
           | Some user \<Rightarrow>
               (case (case assigned_to_department inst of
                        Some dep \<Rightarrow> if dep \<in> set department_ids then Inr inst else Inl DoesNotExist
                      | None \<Rightarrow>
                          (case u_department user of
                             None \<Rightarrow> Inr inst
                           | Some dep \<Rightarrow>
                               if dep \<in> set department_ids
                               then Inr (inst\<lparr>assigned_to_department := Some dep\<rparr>)
                               else Inl DoesNotExist)) of
                  Inl e \<Rightarrow> Inl e
                | Inr inst1 \<Rightarrow>
                    Inr (if current_status inst1 = ''IN_STOCK''
                         then inst1\<lparr>current_status := ''ASSIGNED''\<rparr> else inst1))))"

text \<open>
  \<open>Asset.save\<close>, the method that \<open>self.save\<close> is for an asset.  An empty tag is
  replaced by the one \<open>_generate_asset_tag\<close> returns; that method reads the assets table
  (the highest tag of the year in the order of the database) and writes nothing, and is
  the argument \<open>generate_asset_tag\<close>, the tag or the exception as a function of the
  table.  Then the depreciation is recomputed on the instance, and Django's \<open>save\<close>
  runs with the receiver above.
\<close>

definition Asset_save ::
  "(Asset list \<Rightarrow> error + string) \<Rightarrow> date \<Rightarrow> User list \<Rightarrow> uuid list
   \<Rightarrow> (Asset \<Rightarrow> Asset list \<Rightarrow> bool) \<Rightarrow> datetime
   \<Rightarrow> string list \<Rightarrow> Asset \<Rightarrow> bool \<Rightarrow> Asset list
   \<Rightarrow> (error + unit) \<times> Asset \<times> bool \<times> Asset list" where
  "Asset_save generate_asset_tag today user_rows department_ids accepts now update_fields self adding tbl =
     (case (if asset_tag self = []
            then (case generate_asset_tag tbl of
                    Inl e \<Rightarrow> Inl e
                  | Inr tag \<Rightarrow> Inr (self\<lparr>asset_tag := tag\<rparr>))
            else Inr self) of
        Inl e \<Rightarrow> (Inl e, self, adding, tbl)
      | Inr self1 \<Rightarrow>
          (let self2 = (if truthy (purchase_price self1)
                           \<and> depreciation_method self1 \<noteq> ''NO_DEPRECIATION''
                        then calculate_depreciation today self1 else self1)
           in Model_save (validate_asset_assignment user_rows department_ids) accepts now
                update_fields self2 adding tbl))"

section \<open>procurement/models.py: stock batches and stock movements\<close>

record StockBatch =
  b_id :: uuid
  b_item :: uuid
  batch_no :: string
  b_location :: uuid
  qty_on_hand :: rat
  qty_allocated :: rat
  qty_available :: "rat option"
  b_unit_cost :: rat
  b_total_value :: rat
  b_status :: string
  b_created_at :: datetime
  b_updated_at :: datetime

text \<open>The part of \<open>StockBatch.save\<close> that runs before the row is written.\<close>

definition StockBatch_save :: "StockBatch \<Rightarrow> StockBatch" where
  "StockBatch_save self =
     (let self1 = self\<lparr>qty_available := Some (dec_sub (qty_on_hand self) (qty_allocated self))\<rparr>
      in self1\<lparr>b_total_value := dec_mul (qty_on_hand self1) (b_unit_cost self1)\<rparr>)"

text \<open>
  \<open>get_item_valuation\<close>.  \<open>if location\<close> is false for \<open>None\<close> only.  The dictionary it
  returns is a record.
\<close>

record valuation =
  v_quantity :: rat
  v_value :: rat
  v_avg_cost :: rat

definition get_item_valuation :: "uuid \<Rightarrow> uuid option \<Rightarrow> StockBatch list \<Rightarrow> valuation" where
  "get_item_valuation item location stock_batches =
     (let batches0 = filter (\<lambda>b. b_item b = item \<and> qty_on_hand b > 0 \<and> b_status b = ''ACTIVE'')
                       stock_batches;
          batches1 = (case location of
                        None \<Rightarrow> batches0
                      | Some loc \<Rightarrow> filter (\<lambda>b. b_location b = loc) batches0);
          batches = sort_key b_created_at batches1;
          total_qty = py_sum (map qty_on_hand batches);
          total_value = py_sum (map b_total_value batches);
          avg_cost = (if total_qty > 0 then dec_div total_value total_qty else 0)
      in \<lparr>v_quantity = total_qty, v_value = total_value, v_avg_cost = avg_cost\<rparr>)"

record StockMovement =
  m_id :: uuid
  m_item :: uuid
  from_location :: "uuid option"
  to_location :: "uuid option"
  movement_type :: string
  reference_type :: "string option"
  reference_id :: "uuid option"
  reference_number :: "string option"
  m_batch :: "uuid option"
  serial_no :: "string option"
  quantity :: rat
  m_uom :: uuid
  m_unit_cost :: "rat option"
  m_total_value :: "rat option"
  fiscal_year :: "int option"
  fiscal_month :: "int option"
  transaction_date :: date
  transaction_time :: datetime
  m_created_by :: uuid
  approved_by :: "uuid option"
  approved_at :: "datetime option"
  reason_code :: "string option"
  m_remarks :: "string option"
  is_reversed :: bool
  reversed_by :: "uuid option"
  reversed_at :: "datetime option"
  m_created_at :: datetime

text \<open>
  The part of \<open>StockMovement.save\<close> that runs before the row is written: the total
  value when unit cost and quantity are both true in Python's sense, and the fiscal
  period (a \<open>date\<close> is always true).
\<close>

definition StockMovement_before_save :: "StockMovement \<Rightarrow> StockMovement" where
  "StockMovement_before_save self =
     (let self1 = (if truthy (m_unit_cost self) \<and> quantity self \<noteq> 0
                   then self\<lparr>m_total_value := Some (dec_mul (the (m_unit_cost self)) (quantity self))\<rparr>
                   else self)
      in self1\<lparr>fiscal_year := Some (year (transaction_date self1)),
                fiscal_month := Some (month (transaction_date self1))\<rparr>)"

text \<open>An f-string prints \<open>None\<close> for a missing value.\<close>

definition fstr :: "string option \<Rightarrow> string" where
  "fstr s = (case s of None \<Rightarrow> ''None'' | Some t \<Rightarrow> t)"

text \<open>
  \<open>self.save(update_fields=['is_reversed', 'reversed_by', 'reversed_at'])\<close> of a stock
  movement.  \<open>StockMovement.save\<close> first recomputes total value and fiscal period on
  the instance, then calls Django's \<open>save\<close>; the class has no \<open>pre_save\<close> receiver.
  The primary key has a default, so an instance that is still \<open>adding\<close> (never saved
  nor loaded, Django's \<open>_state.adding\<close>) is inserted, the whole row: \<open>auto_now_add\<close>
  sets \<open>transaction_time\<close> and \<open>created_at\<close> on the instance, and the insert raises
  \<open>IntegrityError\<close> on a key that is taken.  Any other instance updates the three named
  columns of the row with its key, and Django raises \<open>DatabaseError\<close> when that touches
  no row.  The result is the outcome, the instance, its flag and the table afterwards.
\<close>

definition StockMovement_save ::
  "datetime \<Rightarrow> StockMovement \<Rightarrow> bool \<Rightarrow> StockMovement list
   \<Rightarrow> (error + unit) \<times> StockMovement \<times> bool \<times> StockMovement list" where
  "StockMovement_save now self adding tbl =
     (let self0 = StockMovement_before_save self
      in if adding
         then (let self1 = self0\<lparr>transaction_time := now\<rparr>;
                   self2 = self1\<lparr>m_created_at := now\<rparr>
               in if \<exists>r \<in> set tbl. m_id r = m_id self2
                  then (Inl IntegrityError, self2, True, tbl)
                  else (Inr (), self2, False, tbl @ [self2]))
         else if \<exists>r \<in> set tbl. m_id r = m_id self0
         then (Inr (), self0, False,
               map (\<lambda>r. if m_id r = m_id self0
                        then r\<lparr>is_reversed := is_reversed self0, reversed_by := reversed_by self0,
                               reversed_at := reversed_at self0\<rparr>
                        else r) tbl)
         else (Inl DatabaseError, self0, False, tbl))"

text \<open>
  \<open>reverse_movement\<close>.  \<open>str_uuid\<close> is the text Python prints for a UUID, \<open>new_id\<close> the
  key \<open>uuid4\<close> draws for the new movement, \<open>adding\<close> the flag of the instance.  The
  result is the new movement or the error, the instance, its flag and the table
  afterwards.  The insert of \<open>objects.create\<close> fails with \<open>IntegrityError\<close> on a key
  that is taken; the new row stays in the table when the \<open>save\<close> of the original fails
  after it.
\<close>

definition reverse_movement ::
  "(uuid \<Rightarrow> string) \<Rightarrow> datetime \<Rightarrow> uuid \<Rightarrow> StockMovement \<Rightarrow> bool \<Rightarrow> uuid \<Rightarrow> StockMovement list
   \<Rightarrow> (error + StockMovement) \<times> StockMovement \<times> bool \<times> StockMovement list" where
  "reverse_movement str_uuid now new_id self adding user stock_movements =
     (if is_reversed self
      then (Inl (ValidationError ''This movement has already been reversed.''), self, adding,
            stock_movements)
      else if \<exists>r \<in> set stock_movements. m_id r = new_id
      then (Inl IntegrityError, self, adding, stock_movements)
      else
        (let reverse = StockMovement_before_save
               \<lparr>m_id = new_id, m_item = m_item self,
                 from_location = to_location self, to_location = from_location self,
                 movement_type = movement_type self,
                 reference_type = Some (''REVERSAL_'' @ fstr (reference_type self)),
                 reference_id = Some (m_id self),
                 reference_number = Some (''REV-'' @ fstr (reference_number self)),
                 m_batch = m_batch self, serial_no = serial_no self,
                 quantity = quantity self, m_uom = m_uom self,
                 m_unit_cost = m_unit_cost self, m_total_value = None,
                 fiscal_year = None, fiscal_month = None,
                 transaction_date = transaction_date self, transaction_time = now,
                 m_created_by = user, approved_by = None, approved_at = None,
                 reason_code = Some ''REVERSAL'',
                 m_remarks = Some (''Reversal of movement '' @ str_uuid (m_id self)),
                 is_reversed = False, reversed_by = None, reversed_at = None,
                 m_created_at = now\<rparr>;
             table1 = stock_movements @ [reverse];
             self1 = self\<lparr>is_reversed := True\<rparr>;
             self2 = self1\<lparr>reversed_by := Some user\<rparr>;
             self3 = self2\<lparr>reversed_at := Some now\<rparr>
         in case StockMovement_save now self3 adding table1 of
              (Inl e, self4, adding', table2) \<Rightarrow> (Inl e, self4, adding', table2)
            | (Inr _, self4, adding', table2) \<Rightarrow> (Inr reverse, self4, adding', table2)))"

text \<open>
  A stock movement for the concrete runs below, and one as it is loaded from its row:
  the total value of 0.333 units at 0.05 is 0.01665, which the column of two decimal
  places holds as 0.02.
\<close>

definition example_movement :: StockMovement where
  "example_movement = \<lparr>m_id = 500, m_item = 10, from_location = None, to_location = Some 20,
     movement_type = ''PURCHASE_IN'', reference_type = Some ''GRN'', reference_id = Some 30,
     reference_number = Some ''GRN-2025-0001'', m_batch = Some 40, serial_no = None,
     quantity = 5 / 2, m_uom = 50, m_unit_cost = Some 4, m_total_value = Some 10,
     fiscal_year = Some 2025, fiscal_month = Some 3,
     transaction_date = \<lparr>year = 2025, month = 3, day = 14\<rparr>, transaction_time = 1000,
     m_created_by = 1, approved_by = None, approved_at = None, reason_code = None,
     m_remarks = None, is_reversed = False, reversed_by = None, reversed_at = None,
     m_created_at = 1000\<rparr>"

definition example_small_movement :: StockMovement where
  "example_small_movement =
     example_movement\<lparr>m_id := 510, quantity := 333 / 1000, m_unit_cost := Some (1 / 20),
                        m_total_value := Some (1 / 50)\<rparr>"

text \<open>
  The words of the depreciation claims: the salvage value is \<open>salvage_value\<close> or
  zero, the years elapsed are the days since the purchase date divided by 365.25, and
  one year of the declining balance takes the remaining value \<open>r\<close> to
  \<open>r - r * rate\<close>, all in \<open>Decimal\<close> arithmetic.
\<close>

definition salvage_of :: "Asset \<Rightarrow> rat" where
  "salvage_of self = (case salvage_value self of None \<Rightarrow> 0 | Some s \<Rightarrow> s)"

definition years_elapsed :: "date \<Rightarrow> date \<Rightarrow> rat" where
  "years_elapsed today pd = dec_div (of_int (toordinal today - toordinal pd)) (1461 / 4)"

definition declining_step :: "rat \<Rightarrow> rat \<Rightarrow> rat" where
  "declining_step rate r = dec_sub r (dec_mul r rate)"

text \<open>
  What the specification says \<open>calculate_depreciation\<close> sets, for the straight-line
  method and for the declining balance (where it multiplies the remaining value by
  \<open>1 - 2 / useful_life_years\<close>), for every asset whose purchase date, purchase price
  and useful life are not null.
\<close>

definition claimed_straight_line :: "date \<Rightarrow> Asset \<Rightarrow> Asset" where
  "claimed_straight_line today self =
     (let price = the (purchase_price self);
          salvage = (case salvage_value self of None \<Rightarrow> 0 | Some s \<Rightarrow> s);
          years_elapsed = dec_div (of_int (toordinal today - toordinal (the (purchase_date self)))) (1461 / 4);
          accumulated = min (dec_mul (dec_div (dec_sub price salvage)
                                        (of_int (the (useful_life_years self)))) years_elapsed)
                            (dec_sub price salvage)
      in self\<lparr>accumulated_depreciation := accumulated,
               current_book_value := Some (max (dec_sub price accumulated) salvage)\<rparr>)"

fun claimed_declining_loop :: "nat \<Rightarrow> rat \<Rightarrow> rat \<Rightarrow> rat \<Rightarrow> rat" where
  "claimed_declining_loop 0 remaining factor salvage = remaining"
| "claimed_declining_loop (Suc n) remaining factor salvage =
     (if dec_mul remaining factor < salvage then salvage
      else claimed_declining_loop n (dec_mul remaining factor) factor salvage)"

definition claimed_declining_balance :: "date \<Rightarrow> Asset \<Rightarrow> Asset" where
  "claimed_declining_balance today self =
     (let price = the (purchase_price self);
          salvage = (case salvage_value self of None \<Rightarrow> 0 | Some s \<Rightarrow> s);
          years_elapsed = dec_div (of_int (toordinal today - toordinal (the (purchase_date self)))) (1461 / 4);
          factor = dec_sub 1 (dec_div 2 (of_int (the (useful_life_years self))));
          remaining = claimed_declining_loop (nat (py_int years_elapsed)) price factor salvage;
          accumulated = dec_sub price remaining
      in self\<lparr>accumulated_depreciation := accumulated,
               current_book_value := Some (max (dec_sub price accumulated) salvage)\<rparr>)"

text \<open>Assets and a date for the concrete runs below.\<close>

definition example_asset :: Asset where
  "example_asset = \<lparr>pk = 600, created_at = 0, updated_at = 0, created_by = None, updated_by = None,
     deleted_at = None, deleted_by = None,
     asset_tag = ''AST-2024-00001'', current_status = ''IN_STOCK'',
     assigned_to_user = None, assigned_to_department = None,
     purchase_date = Some \<lparr>year = 2024, month = 1, day = 1\<rparr>, purchase_price = Some 1000,
     depreciation_method = ''STRAIGHT_LINE'', useful_life_years = Some 5,
     salvage_value = Some 100, current_book_value = None, accumulated_depreciation = 0\<rparr>"

definition example_today :: date where
  "example_today = \<lparr>year = 2025, month = 3, day = 14\<rparr>"

text \<open>
  The asset as it is loaded from the row that \<open>Asset.save\<close> wrote on that day, with
  the depreciation of the day in columns of two decimal places, and a later day.
\<close>

definition example_saved_asset :: Asset where
  "example_saved_asset =
     example_asset\<lparr>current_book_value := Some (78415 / 100), accumulated_depreciation := 21585 / 100\<rparr>"

definition example_later_day :: date where
  "example_later_day = \<lparr>year = 2025, month = 6, day = 1\<rparr>"

definition example_free_asset :: Asset where
  "example_free_asset = example_asset\<lparr>purchase_price := Some 0, salvage_value := None\<rparr>"

definition example_declining_asset :: Asset where
  "example_declining_asset =
     example_asset\<lparr>purchase_price := Some (30864 / 25), depreciation_method := ''DECLINING_BALANCE'',
                   useful_life_years := Some 11\<rparr>"

definition example_free_declining_asset :: Asset where
  "example_free_declining_asset =
     example_asset\<lparr>purchase_price := Some 0, salvage_value := None,
                   depreciation_method := ''DECLINING_BALANCE''\<rparr>"

text \<open>
  The rows the valuation claim speaks of: the stock batches of the item with status
  \<open>ACTIVE\<close> and a positive quantity on hand, at the location when one is given.
\<close>

definition selected_batches :: "uuid \<Rightarrow> uuid option \<Rightarrow> StockBatch list \<Rightarrow> StockBatch list" where
  "selected_batches item location stock_batches =
     filter (\<lambda>b. b_item b = item \<and> b_status b = ''ACTIVE'' \<and> qty_on_hand b > 0
                \<and> (case location of None \<Rightarrow> True | Some loc \<Rightarrow> b_location b = loc)) stock_batches"

text \<open>Stock batches for the concrete runs below.\<close>

definition example_batch :: StockBatch where
  "example_batch = \<lparr>b_id = 700, b_item = 10, batch_no = ''B-001'', b_location = 20,
     qty_on_hand = 5 / 2, qty_allocated = 0, qty_available = Some (5 / 2),
     b_unit_cost = 4, b_total_value = 10, b_status = ''ACTIVE'',
     b_created_at = 300, b_updated_at = 300\<rparr>"

definition example_batches :: "StockBatch list" where
  "example_batches =
     [example_batch,
      example_batch\<lparr>b_id := 701, batch_no := ''B-002'', b_location := 21, qty_on_hand := 1,
                    qty_available := Some 1, b_unit_cost := 333 / 100, b_total_value := 333 / 100,
                    b_created_at := 100\<rparr>,
      example_batch\<lparr>b_id := 702, batch_no := ''B-003'', b_status := ''EXPIRED'', b_created_at := 200\<rparr>,
      example_batch\<lparr>b_id := 703, b_item := 11, b_created_at := 250\<rparr>,
      example_batch\<lparr>b_id := 704, batch_no := ''B-004'', qty_on_hand := 0, qty_available := Some 0,
                    b_total_value := 0, b_created_at := 50\<rparr>]"

section \<open>Soft delete\<close>

lemma save_deleted_columns:
  "Model_save Inr accepts now' [''deleted_at'', ''deleted_by''] inst adding tbl =
     (if adding
      then (if (\<exists>r \<in> set tbl. pk r = pk inst) \<or> \<not> accepts (inst\<lparr>created_at := now', updated_at := now'\<rparr>) tbl
            then (Inl IntegrityError, inst\<lparr>created_at := now', updated_at := now'\<rparr>, True, tbl)
            else (Inr (), inst\<lparr>created_at := now', updated_at := now'\<rparr>, False,
                  tbl @ [inst\<lparr>created_at := now', updated_at := now'\<rparr>]))
      else if \<exists>r \<in> set tbl. pk r = pk inst
      then (Inr (), inst, False,
            map (\<lambda>r. if pk r = pk inst
                     then r\<lparr>deleted_at := deleted_at inst, deleted_by := deleted_by inst\<rparr>
                     else r) tbl)
      else (Inl DatabaseError, inst, False, tbl))"
  by (simp add: Model_save_def set_column_def Let_def)

lemma pk_kept_by_column_update:
  "(\<exists>r \<in> set (map (\<lambda>r. if pk r = k then r\<lparr>deleted_at := a, deleted_by := b\<rparr> else r) tbl). pk r = k)
     = (\<exists>r \<in> set tbl. pk r = k)"
  by (induction tbl) auto

lemma column_update_twice:
  "map (\<lambda>r. if pk r = k then r\<lparr>deleted_at := c, deleted_by := d\<rparr> else r)
     (map (\<lambda>r. if pk r = k then r\<lparr>deleted_at := a, deleted_by := b\<rparr> else r) tbl)
   = map (\<lambda>r. if pk r = k then r\<lparr>deleted_at := c, deleted_by := d\<rparr> else r) tbl"
  by (induction tbl) auto

lemma column_update_clean:
  "\<forall>r \<in> set tbl. pk r = k \<longrightarrow> deleted_at r = a \<and> deleted_by r = b \<Longrightarrow>
   map (\<lambda>r. if pk r = k then r\<lparr>deleted_at := a, deleted_by := b\<rparr> else r) tbl = tbl"
  by (induction tbl) auto

lemma soft_delete_saved:
  assumes "\<not> adding" "\<exists>r \<in> set tbl. pk r = pk self"
  shows "soft_delete (Model_save Inr accepts now') now user_id self adding tbl =
           (Inr (), self\<lparr>deleted_at := Some now, deleted_by := user_id\<rparr>, False,
            map (\<lambda>r. if pk r = pk self then r\<lparr>deleted_at := Some now, deleted_by := user_id\<rparr> else r) tbl)"
  using assms by (simp add: soft_delete_def save_deleted_columns Let_def)

lemma restore_saved:
  assumes "\<not> adding" "\<exists>r \<in> set tbl. pk r = pk self"
  shows "restore (Model_save Inr accepts now') self adding tbl =
           (Inr (), self\<lparr>deleted_at := None, deleted_by := None\<rparr>, False,
            map (\<lambda>r. if pk r = pk self then r\<lparr>deleted_at := None, deleted_by := None\<rparr> else r) tbl)"
  using assms by (simp add: restore_def save_deleted_columns Let_def)

lemma soft_delete_then_restore_saved:
  assumes "\<not> adding" "\<exists>r \<in> set tbl. pk r = pk self"
  shows "soft_delete_then_restore (Model_save Inr accepts now') now user_id self adding tbl =
           (Inr (), self\<lparr>deleted_at := None, deleted_by := None\<rparr>, False,
            map (\<lambda>r. if pk r = pk self then r\<lparr>deleted_at := None, deleted_by := None\<rparr> else r) tbl)"
proof -
  let ?self' = "self\<lparr>deleted_at := Some now, deleted_by := user_id\<rparr>"
  let ?tbl' = "map (\<lambda>r. if pk r = pk self then r\<lparr>deleted_at := Some now, deleted_by := user_id\<rparr> else r) tbl"
  have p: "\<exists>r \<in> set ?tbl'. pk r = pk ?self'"
    using assms(2) pk_kept_by_column_update [where k = "pk self" and tbl = tbl] by simp
  have "restore (Model_save Inr accepts now') ?self' False ?tbl' =
          (Inr (), self\<lparr>deleted_at := None, deleted_by := None\<rparr>, False,
           map (\<lambda>r. if pk r = pk self then r\<lparr>deleted_at := None, deleted_by := None\<rparr> else r) tbl)"
    using restore_saved [OF _ p, of False accepts now'] by (simp add: column_update_twice)
  then show ?thesis
    using soft_delete_saved [OF assms, of accepts now' now user_id]
    by (simp add: soft_delete_then_restore_def)
qed

lemma soft_delete_never_saved:
  assumes "adding" "\<not> (\<exists>r \<in> set tbl. pk r = pk self)"
    "accepts (self\<lparr>deleted_at := Some now, deleted_by := user_id, created_at := now', updated_at := now'\<rparr>) tbl"
  shows "soft_delete (Model_save Inr accepts now') now user_id self adding tbl =
           (Inr (),
            self\<lparr>deleted_at := Some now, deleted_by := user_id, created_at := now', updated_at := now'\<rparr>,
            False,
            tbl @ [self\<lparr>deleted_at := Some now, deleted_by := user_id, created_at := now',
                         updated_at := now'\<rparr>])"
  using assms by (simp add: soft_delete_def save_deleted_columns Let_def)

lemma soft_delete_sets_fields:
  "deleted_at (fst (snd (soft_delete (Model_save Inr accepts now') now user_id self adding tbl))) = Some now
   \<and> deleted_by (fst (snd (soft_delete (Model_save Inr accepts now') now user_id self adding tbl))) = user_id
   \<and> is_deleted (fst (snd (soft_delete (Model_save Inr accepts now') now user_id self adding tbl)))"
  by (simp add: soft_delete_def save_deleted_columns Let_def is_deleted_def)

lemma restore_sets_fields:
  "deleted_at (fst (snd (restore (Model_save Inr accepts now') self adding tbl))) = None
   \<and> deleted_by (fst (snd (restore (Model_save Inr accepts now') self adding tbl))) = None
   \<and> \<not> is_deleted (fst (snd (restore (Model_save Inr accepts now') self adding tbl)))"
  by (simp add: restore_def save_deleted_columns Let_def is_deleted_def)

lemma soft_delete_errors:
  "(\<not> adding \<and> \<not> (\<exists>r \<in> set tbl. pk r = pk self) \<longrightarrow>
      soft_delete (Model_save Inr accepts now') now user_id self adding tbl =
        (Inl DatabaseError, self\<lparr>deleted_at := Some now, deleted_by := user_id\<rparr>, False, tbl))
   \<and> (adding \<and> (\<exists>r \<in> set tbl. pk r = pk self) \<longrightarrow>
      soft_delete (Model_save Inr accepts now') now user_id self adding tbl =
        (Inl IntegrityError,
         self\<lparr>deleted_at := Some now, deleted_by := user_id, created_at := now', updated_at := now'\<rparr>,
         True, tbl))"
  by (simp add: soft_delete_def save_deleted_columns Let_def)

text \<open>
  The claim as it stands fails for an asset: \<open>self.save\<close> is \<open>Asset.save\<close>, which
  recomputes the depreciation before it writes.  The asset whose row has held the
  book value 784.15 since 14 March 2025 is soft-deleted on 1 June 2025: the call changes
  \<open>current_book_value\<close> and \<open>accumulated_depreciation\<close> of the instance as well, and
  writes the two columns \<open>deleted_at\<close> and \<open>deleted_by\<close> of the row.
\<close>

theorem soft_delete_asset_counterexample:
  "soft_delete (Asset_save (\<lambda>tbl. Inr ''AST-2025-00001'') example_later_day [] [] (\<lambda>row tbl. True) 600)
       500 (Some 3) example_saved_asset False [example_saved_asset] =
     (Inr (),
      example_saved_asset
        \<lparr>deleted_at := Some 500, deleted_by := Some 3,
         current_book_value := Some (745215605749486652977412731 / 1000000000000000000000000),
         accumulated_depreciation := 254784394250513347022587269 / 1000000000000000000000000\<rparr>,
      False,
      [example_saved_asset\<lparr>deleted_at := Some 500, deleted_by := Some 3\<rparr>])
   \<and> current_book_value example_saved_asset = Some (78415 / 100)
   \<and> accumulated_depreciation example_saved_asset = 21585 / 100"
  by code_simp

text \<open>
  C10, amended.  For an instance of a subclass that uses Django's \<open>save\<close> as it is, with
  no \<open>pre_save\<close> receiver (\<open>Model_save Inr\<close>):
  \<^item> whatever the outcome of \<open>save\<close>, \<open>soft_delete\<close> leaves \<open>deleted_at\<close> the current
    time and \<open>deleted_by\<close> \<open>user_id\<close> on the instance, and \<open>is_deleted\<close> is true;
    \<open>restore\<close> leaves both \<open>None\<close>, and \<open>is_deleted\<close> is false;
  \<^item> for an instance that has been saved or loaded and has its row in the table, both
    calls succeed, change these two fields of the instance and no other, and write
    exactly these two columns of that row (every other row and every other column, the
    subclass's columns included, is as before); after \<open>soft_delete\<close> and then \<open>restore\<close>
    an instance that was not soft-deleted before (both fields \<open>None\<close>) is back to
    exactly what it was, as is a table whose rows with that key were not soft-deleted;
  \<^item> for an instance that was never saved, whose key is free and whose row the table
    accepts, \<open>soft_delete\<close> inserts the row, and the instance has \<open>created_at\<close> and
    \<open>updated_at\<close> set as well; on a key that is taken the insert raises
    \<open>IntegrityError\<close>;
  \<^item> for a saved instance whose row is gone, \<open>save\<close> raises \<open>DatabaseError\<close>, with the
    two fields of the instance set.
\<close>

theorem soft_delete_restore_round_trip:
  "deleted_at (fst (snd (soft_delete (Model_save Inr accepts now') now user_id self adding tbl))) = Some now
   \<and> deleted_by (fst (snd (soft_delete (Model_save Inr accepts now') now user_id self adding tbl))) = user_id
   \<and> is_deleted (fst (snd (soft_delete (Model_save Inr accepts now') now user_id self adding tbl)))
   \<and> deleted_at (fst (snd (restore (Model_save Inr accepts now') self adding tbl))) = None
   \<and> deleted_by (fst (snd (restore (Model_save Inr accepts now') self adding tbl))) = None
   \<and> \<not> is_deleted (fst (snd (restore (Model_save Inr accepts now') self adding tbl)))
   \<and> (\<not> adding \<and> (\<exists>r \<in> set tbl. pk r = pk self) \<longrightarrow>
         soft_delete (Model_save Inr accepts now') now user_id self adding tbl =
           (Inr (), self\<lparr>deleted_at := Some now, deleted_by := user_id\<rparr>, False,
            map (\<lambda>r. if pk r = pk self then r\<lparr>deleted_at := Some now, deleted_by := user_id\<rparr> else r) tbl)
       \<and> restore (Model_save Inr accepts now') self adding tbl =
           (Inr (), self\<lparr>deleted_at := None, deleted_by := None\<rparr>, False,
            map (\<lambda>r. if pk r = pk self then r\<lparr>deleted_at := None, deleted_by := None\<rparr> else r) tbl)
       \<and> soft_delete_then_restore (Model_save Inr accepts now') now user_id self adding tbl =
           (Inr (), self\<lparr>deleted_at := None, deleted_by := None\<rparr>, False,
            map (\<lambda>r. if pk r = pk self then r\<lparr>deleted_at := None, deleted_by := None\<rparr> else r) tbl)
       \<and> (deleted_at self = None \<and> deleted_by self = None
            \<longrightarrow> fst (snd (soft_delete_then_restore (Model_save Inr accepts now') now user_id self adding tbl))
                  = self)
       \<and> ((\<forall>r \<in> set tbl. pk r = pk self \<longrightarrow> deleted_at r = None \<and> deleted_by r = None)
            \<longrightarrow> snd (snd (snd (soft_delete_then_restore (Model_save Inr accepts now') now user_id self
                                 adding tbl))) = tbl))
   \<and> (adding \<and> \<not> (\<exists>r \<in> set tbl. pk r = pk self)
        \<and> accepts (self\<lparr>deleted_at := Some now, deleted_by := user_id, created_at := now',
                          updated_at := now'\<rparr>) tbl \<longrightarrow>
         soft_delete (Model_save Inr accepts now') now user_id self adding tbl =
           (Inr (),
            self\<lparr>deleted_at := Some now, deleted_by := user_id, created_at := now', updated_at := now'\<rparr>,
            False,
            tbl @ [self\<lparr>deleted_at := Some now, deleted_by := user_id, created_at := now',
                         updated_at := now'\<rparr>]))
   \<and> (adding \<and> (\<exists>r \<in> set tbl. pk r = pk self) \<longrightarrow>
         soft_delete (Model_save Inr accepts now') now user_id self adding tbl =
           (Inl IntegrityError,
            self\<lparr>deleted_at := Some now, deleted_by := user_id, created_at := now', updated_at := now'\<rparr>,
            True, tbl))
   \<and> (\<not> adding \<and> \<not> (\<exists>r \<in> set tbl. pk r = pk self) \<longrightarrow>
         soft_delete (Model_save Inr accepts now') now user_id self adding tbl =
           (Inl DatabaseError, self\<lparr>deleted_at := Some now, deleted_by := user_id\<rparr>, False, tbl))"
proof -
  note f = soft_delete_sets_fields [where accepts = accepts and now' = now' and now = now
      and user_id = user_id and self = self and adding = adding and tbl = tbl]
  note g = restore_sets_fields [where accepts = accepts and now' = now' and self = self
      and adding = adding and tbl = tbl]
  note e = soft_delete_errors [where accepts = accepts and now' = now' and now = now
      and user_id = user_id and self = self and adding = adding and tbl = tbl]
  have saved: "\<not> adding \<and> (\<exists>r \<in> set tbl. pk r = pk self) \<longrightarrow>
         soft_delete (Model_save Inr accepts now') now user_id self adding tbl =
           (Inr (), self\<lparr>deleted_at := Some now, deleted_by := user_id\<rparr>, False,
            map (\<lambda>r. if pk r = pk self then r\<lparr>deleted_at := Some now, deleted_by := user_id\<rparr> else r) tbl)
       \<and> restore (Model_save Inr accepts now') self adding tbl =
           (Inr (), self\<lparr>deleted_at := None, deleted_by := None\<rparr>, False,
            map (\<lambda>r. if pk r = pk self then r\<lparr>deleted_at := None, deleted_by := None\<rparr> else r) tbl)
       \<and> soft_delete_then_restore (Model_save Inr accepts now') now user_id self adding tbl =
           (Inr (), self\<lparr>deleted_at := None, deleted_by := None\<rparr>, False,
            map (\<lambda>r. if pk r = pk self then r\<lparr>deleted_at := None, deleted_by := None\<rparr> else r) tbl)
       \<and> (deleted_at self = None \<and> deleted_by self = None
            \<longrightarrow> fst (snd (soft_delete_then_restore (Model_save Inr accepts now') now user_id self adding tbl))
                  = self)
       \<and> ((\<forall>r \<in> set tbl. pk r = pk self \<longrightarrow> deleted_at r = None \<and> deleted_by r = None)
            \<longrightarrow> snd (snd (snd (soft_delete_then_restore (Model_save Inr accepts now') now user_id self
                                 adding tbl))) = tbl)"
  proof (intro impI)
    assume a: "\<not> adding \<and> (\<exists>r \<in> set tbl. pk r = pk self)"
    then have a1: "\<not> adding" and a2: "\<exists>r \<in> set tbl. pk r = pk self"
      by simp_all
    note sd = soft_delete_saved [OF a1 a2, of accepts now' now user_id]
    note rs = restore_saved [OF a1 a2, of accepts now']
    note rt = soft_delete_then_restore_saved [OF a1 a2, of accepts now' now user_id]
    have c4: "deleted_at self = None \<and> deleted_by self = None
            \<longrightarrow> fst (snd (soft_delete_then_restore (Model_save Inr accepts now') now user_id self adding tbl))
                  = self"
      by (simp add: rt)
    have c5: "(\<forall>r \<in> set tbl. pk r = pk self \<longrightarrow> deleted_at r = None \<and> deleted_by r = None)
            \<longrightarrow> snd (snd (snd (soft_delete_then_restore (Model_save Inr accepts now') now user_id self
                                 adding tbl))) = tbl"
      by (simp add: rt column_update_clean)
    show "soft_delete (Model_save Inr accepts now') now user_id self adding tbl =
           (Inr (), self\<lparr>deleted_at := Some now, deleted_by := user_id\<rparr>, False,
            map (\<lambda>r. if pk r = pk self then r\<lparr>deleted_at := Some now, deleted_by := user_id\<rparr> else r) tbl)
       \<and> restore (Model_save Inr accepts now') self adding tbl =
           (Inr (), self\<lparr>deleted_at := None, deleted_by := None\<rparr>, False,
            map (\<lambda>r. if pk r = pk self then r\<lparr>deleted_at := None, deleted_by := None\<rparr> else r) tbl)
       \<and> soft_delete_then_restore (Model_save Inr accepts now') now user_id self adding tbl =
           (Inr (), self\<lparr>deleted_at := None, deleted_by := None\<rparr>, False,
            map (\<lambda>r. if pk r = pk self then r\<lparr>deleted_at := None, deleted_by := None\<rparr> else r) tbl)
       \<and> (deleted_at self = None \<and> deleted_by self = None
            \<longrightarrow> fst (snd (soft_delete_then_restore (Model_save Inr accepts now') now user_id self adding tbl))
                  = self)
       \<and> ((\<forall>r \<in> set tbl. pk r = pk self \<longrightarrow> deleted_at r = None \<and> deleted_by r = None)
            \<longrightarrow> snd (snd (snd (soft_delete_then_restore (Model_save Inr accepts now') now user_id self
                                 adding tbl))) = tbl)"
      using sd rs rt c4 c5 by (intro conjI)
  qed
  have never: "adding \<and> \<not> (\<exists>r \<in> set tbl. pk r = pk self)
        \<and> accepts (self\<lparr>deleted_at := Some now, deleted_by := user_id, created_at := now',
                          updated_at := now'\<rparr>) tbl \<longrightarrow>
         soft_delete (Model_save Inr accepts now') now user_id self adding tbl =
           (Inr (),
            self\<lparr>deleted_at := Some now, deleted_by := user_id, created_at := now', updated_at := now'\<rparr>,
            False,
            tbl @ [self\<lparr>deleted_at := Some now, deleted_by := user_id, created_at := now',
                         updated_at := now'\<rparr>])"
    using soft_delete_never_saved [where accepts = accepts and now' = now' and now = now
        and user_id = user_id and self = self and adding = adding and tbl = tbl] by blast
  show ?thesis
    using f [THEN conjunct1] f [THEN conjunct2, THEN conjunct1] f [THEN conjunct2, THEN conjunct2]
      g [THEN conjunct1] g [THEN conjunct2, THEN conjunct1] g [THEN conjunct2, THEN conjunct2]
      saved never e [THEN conjunct2] e [THEN conjunct1]
    by (intro conjI)
qed

theorem soft_delete_restore_round_trip_witness:
  "(\<exists>r \<in> set [example_other_row, example_row]. pk r = pk example_row)
   \<and> soft_delete (Model_save Inr (\<lambda>row tbl. True) 600) 500 (Some 3) example_row False
       [example_other_row, example_row] =
       (Inr (), example_row\<lparr>deleted_at := Some 500, deleted_by := Some 3\<rparr>, False,
        [example_other_row, example_row\<lparr>deleted_at := Some 500, deleted_by := Some 3\<rparr>])
   \<and> is_deleted (fst (snd (soft_delete (Model_save Inr (\<lambda>row tbl. True) 600) 500 (Some 3) example_row
                             False [example_other_row, example_row])))
   \<and> soft_delete_then_restore (Model_save Inr (\<lambda>row tbl. True) 600) 500 (Some 3) example_row False
       [example_other_row, example_row] =
       (Inr (), example_row, False, [example_other_row, example_row])
   \<and> soft_delete (Model_save Inr (\<lambda>row tbl. True) 600) 500 (Some 3) example_row True
       [example_other_row] =
       (Inr (),
        example_row\<lparr>deleted_at := Some 500, deleted_by := Some 3, created_at := 600, updated_at := 600\<rparr>,
        False,
        [example_other_row,
         example_row\<lparr>deleted_at := Some 500, deleted_by := Some 3, created_at := 600, updated_at := 600\<rparr>])"
proof -
  have p: "\<exists>r \<in> set [example_other_row, example_row]. pk r = pk example_row"
    by simp
  have q: "\<not> (\<exists>r \<in> set [example_other_row]. pk r = pk example_row)"
    by (simp add: example_row_def example_other_row_def)
  show ?thesis
    using soft_delete_restore_round_trip
            [where accepts = "\<lambda>row tbl. True" and now' = 600 and now = 500 and user_id = "Some 3"
               and self = example_row and adding = False and tbl = "[example_other_row, example_row]"]
          soft_delete_restore_round_trip
            [where accepts = "\<lambda>row tbl. True" and now' = 600 and now = 500 and user_id = "Some 3"
               and self = example_row and adding = True and tbl = "[example_other_row]"]
          p q
    by (simp add: example_row_def example_other_row_def is_deleted_def)
qed

section \<open>Sequential step advancement\<close>
















section \<open>Timeout detection\<close>

lemma latest_None_iff: "latest xs = None \<longleftrightarrow> xs = []"
  by (induction xs) (auto split: option.splits)

lemma latest_Max:
  "xs \<noteq> [] \<Longrightarrow> \<exists>la. latest xs = Some la \<and> la \<in> set xs \<and> h_action_date la = Max (h_action_date ` set xs)"
proof (induction xs)
  case Nil
  then show ?case by simp
next
  case (Cons x xs)
  show ?case
  proof (cases "xs = []")
    case True
    then show ?thesis by simp
  next
    case False
    with Cons.IH obtain y where y: "latest xs = Some y" "y \<in> set xs"
      "h_action_date y = Max (h_action_date ` set xs)" by blast
    have fin: "finite (h_action_date ` set xs)" "h_action_date ` set xs \<noteq> {}"
      using False by simp_all
    have "Max (h_action_date ` set (x # xs)) = max (h_action_date x) (Max (h_action_date ` set xs))"
      using fin by simp
    then show ?thesis using y by (auto simp: max_def)
  qed
qed

lemma reference_time_most_recent:
  "reference_time self d =
     (let entries = filter (\<lambda>r. h_approval r = a_id self
                               \<and> Some (h_step_sequence r) = current_step_sequence self)
                      (approval_history d)
      in if entries = [] then requested_at self else Max (h_action_date ` set entries))"
proof -
  let ?es = "filter (\<lambda>r. h_approval r = a_id self \<and> Some (h_step_sequence r) = current_step_sequence self)
               (approval_history d)"
  show ?thesis
  proof (cases "?es = []")
    case True
    then show ?thesis by (simp add: reference_time_def Let_def)
  next
    case False
    from latest_Max [OF False] obtain la where "latest ?es = Some la"
      "h_action_date la = Max (h_action_date ` set ?es)" by blast
    then show ?thesis using False by (simp add: reference_time_def Let_def)
  qed
qed

lemma get_current_step_nonzero:
  "current_step_sequence self \<noteq> Some 0 \<Longrightarrow>
   get_current_step d self =
     (case a_workflow self of
        None \<Rightarrow> None
      | Some wfid \<Rightarrow>
          (case current_step_sequence self of
             None \<Rightarrow> None
           | Some c \<Rightarrow> first (filter (\<lambda>s. step_workflow s = wfid \<and> step_sequence s = c)
                             (approval_workflow_steps d))))"
  by (auto simp: get_current_step_def split: option.splits)

text \<open>
  The specification's wording of C6 fails where \<open>timeout_hours\<close> is \<open>0\<close>: the step
  exists, the timeout is not null and the time is past, and \<open>check_timeout\<close> answers
  \<open>False\<close>.
\<close>

theorem check_timeout_counterexample:
  "claimed_check_timeout 5000 example_approval example_db_no_wait
   \<and> check_timeout 5000 example_approval example_db_no_wait = Inr False"
  by (simp add: claimed_check_timeout_def check_timeout_def get_current_step_def reference_time_def
        first_def example_db_no_wait_def example_step_no_wait_def example_db_def example_step1_def
        example_approval_def us_per_hour_def)

text \<open>
  C6, amended.  For an approval whose current sequence number is not \<open>0\<close>,
  \<open>check_timeout\<close> returns \<open>True\<close> exactly when the step of its workflow with the
  current sequence number exists, the step's \<open>timeout_hours\<close> is neither null nor \<open>0\<close>,
  the reference time plus that many hours is a time Python can represent, and the current
  time is strictly after it.  The reference time is the greatest \<open>action_date\<close> of the
  history rows of this approval at the current sequence number, and \<open>requested_at\<close> when
  there is none.  With a current step whose \<open>timeout_hours\<close> is null or \<open>0\<close> the answer
  is \<open>False\<close>.
\<close>

theorem check_timeout_iff:
  "(current_step_sequence self \<noteq> Some 0 \<longrightarrow>
      (check_timeout now self d = Inr True \<longleftrightarrow>
        (\<exists>wfid c step h delta t.
            a_workflow self = Some wfid \<and> current_step_sequence self = Some c
          \<and> first (filter (\<lambda>s. step_workflow s = wfid \<and> step_sequence s = c)
                     (approval_workflow_steps d)) = Some step
          \<and> timeout_hours step = Some h \<and> h \<noteq> 0
          \<and> timedelta_hours h = Inr delta \<and> datetime_add (reference_time self d) delta = Inr t
          \<and> now > reference_time self d + h * us_per_hour)))
   \<and> reference_time self d =
       (let entries = filter (\<lambda>r. h_approval r = a_id self
                                 \<and> Some (h_step_sequence r) = current_step_sequence self)
                        (approval_history d)
        in if entries = [] then requested_at self else Max (h_action_date ` set entries))
   \<and> (\<forall>step. get_current_step d self = Some step \<and> (timeout_hours step = None \<or> timeout_hours step = Some 0)
         \<longrightarrow> check_timeout now self d = Inr False)"
proof (intro conjI impI)
  assume nz: "current_step_sequence self \<noteq> Some 0"
  show "check_timeout now self d = Inr True \<longleftrightarrow>
        (\<exists>wfid c step h delta t.
            a_workflow self = Some wfid \<and> current_step_sequence self = Some c
          \<and> first (filter (\<lambda>s. step_workflow s = wfid \<and> step_sequence s = c)
                     (approval_workflow_steps d)) = Some step
          \<and> timeout_hours step = Some h \<and> h \<noteq> 0
          \<and> timedelta_hours h = Inr delta \<and> datetime_add (reference_time self d) delta = Inr t
          \<and> now > reference_time self d + h * us_per_hour)"
    unfolding check_timeout_def get_current_step_nonzero [OF nz]
    by (auto simp: timedelta_hours_def datetime_add_def Let_def split: option.splits sum.splits if_splits)
next
  show "reference_time self d =
       (let entries = filter (\<lambda>r. h_approval r = a_id self
                                 \<and> Some (h_step_sequence r) = current_step_sequence self)
                        (approval_history d)
        in if entries = [] then requested_at self else Max (h_action_date ` set entries))"
    by (rule reference_time_most_recent)
next
  show "\<forall>step. get_current_step d self = Some step \<and> (timeout_hours step = None \<or> timeout_hours step = Some 0)
         \<longrightarrow> check_timeout now self d = Inr False"
    by (auto simp: check_timeout_def)
qed

theorem check_timeout_iff_witness:
  "current_step_sequence example_approval \<noteq> Some 0
   \<and> check_timeout 86400001001 example_approval example_db = Inr True
   \<and> check_timeout 86400001000 example_approval example_db = Inr False
   \<and> reference_time example_approval example_db = 1000"
proof -
  have nz: "current_step_sequence example_approval \<noteq> Some 0"
    by (simp add: example_approval_def)
  have r: "reference_time example_approval example_db = 1000"
    by (simp add: reference_time_def example_approval_def example_db_def)
  have st: "first (filter (\<lambda>s. step_workflow s = 100 \<and> step_sequence s = 1)
                     (approval_workflow_steps example_db)) = Some example_step1"
    by (simp add: first_def example_db_def example_step1_def example_step2_def example_step3_def)
  have td: "timedelta_hours 24 = Inr 86400000000"
    by (simp add: timedelta_hours_def us_per_hour_def us_per_day_def)
  have da: "datetime_add 1000 86400000000 = Inr 86400001000"
    by (simp add: datetime_add_def datetime_max_def us_per_day_def)
  have th: "timeout_hours example_step1 = Some 24" by (simp add: example_step1_def)
  have wc: "a_workflow example_approval = Some 100" "current_step_sequence example_approval = Some 1"
    by (simp_all add: example_approval_def)
  have t: "check_timeout 86400001001 example_approval example_db = Inr True"
    using check_timeout_iff [of example_approval 86400001001 example_db] nz r st td da th wc
    by (simp add: us_per_hour_def)
  have f: "check_timeout 86400001000 example_approval example_db = Inr False"
    using nz r st td da th wc
    by (simp add: check_timeout_def get_current_step_def)
  show ?thesis using nz t f r by simp
qed

section \<open>Approving without authority\<close>

lemma approvers_within_claimed:
  "u_id ` set (get_approvers d step) \<subseteq> claimed_approvers d step"
  by (auto simp: get_approvers_def claimed_approvers_def split: option.splits)

lemma example_current_step: "get_current_step example_db example_approval = Some example_step1"
  by (simp add: get_current_step_def first_def example_db_def example_approval_def
        example_step1_def example_step2_def example_step3_def)

text \<open>
  C8.  When the approval has no current step, or the user is not in the approver set of
  the current step (as the specification words the set, or as \<open>get_approvers\<close> computes
  it), \<open>approve_step\<close> raises \<open>ValidationError\<close> and returns the approval and the
  database, the approval and history tables included, exactly as they were.
\<close>

theorem approve_step_unauthorized_unchanged:
  "(get_current_step d approval = None \<longrightarrow>
      approve_step now new_id approval user comments ip d =
        (Inl (ValidationError ''No current step to approve''), approval, d))
   \<and> (\<forall>step. get_current_step d approval = Some step
          \<and> (user \<notin> claimed_approvers d step \<or> user \<notin> u_id ` set (get_approvers d step)) \<longrightarrow>
      approve_step now new_id approval user comments ip d =
        (Inl (ValidationError ''User is not authorized to approve this step''), approval, d))"
proof (intro conjI allI impI)
  assume "get_current_step d approval = None"
  then show "approve_step now new_id approval user comments ip d =
        (Inl (ValidationError ''No current step to approve''), approval, d)"
    by (simp add: approve_step_def)
next
  fix step
  assume a: "get_current_step d approval = Some step
          \<and> (user \<notin> claimed_approvers d step \<or> user \<notin> u_id ` set (get_approvers d step))"
  then have "user \<notin> u_id ` set (get_approvers d step)"
    using approvers_within_claimed [of d step] by blast
  then have "\<not> (\<exists>u \<in> set (get_approvers d step). u_id u = user)" by auto
  with a show "approve_step now new_id approval user comments ip d =
        (Inl (ValidationError ''User is not authorized to approve this step''), approval, d)"
    by (simp add: approve_step_def)
qed

theorem approve_step_unauthorized_unchanged_witness:
  "get_current_step example_db example_approval = Some example_step1
   \<and> 2 \<notin> claimed_approvers example_db example_step1
   \<and> approve_step 2000 900 example_approval 2 None None example_db =
       (Inl (ValidationError ''User is not authorized to approve this step''), example_approval, example_db)
   \<and> get_current_step example_db (example_approval\<lparr>current_step_sequence := None\<rparr>) = None
   \<and> approve_step 2000 900 (example_approval\<lparr>current_step_sequence := None\<rparr>) 1 None None example_db =
       (Inl (ValidationError ''No current step to approve''),
        example_approval\<lparr>current_step_sequence := None\<rparr>, example_db)"
proof -
  have c: "2 \<notin> claimed_approvers example_db example_step1"
    by (simp add: claimed_approvers_def example_step1_def)
  have n: "get_current_step example_db (example_approval\<lparr>current_step_sequence := None\<rparr>) = None"
    by (simp add: get_current_step_def example_approval_def)
  show ?thesis
    using approve_step_unauthorized_unchanged [of example_db example_approval 2000 900 2 None None]
      approve_step_unauthorized_unchanged
        [of example_db "example_approval\<lparr>current_step_sequence := None\<rparr>" 2000 900 1 None None]
      example_current_step c n
    by simp
qed

section \<open>The audit trail\<close>

text \<open>
  A successful \<open>approve_step\<close> appends exactly one history row, with action
  \<open>APPROVED\<close>, the approval's current sequence number and the approving user;
  \<open>reject\<close> and \<open>cancel\<close> do so with \<open>REJECTED\<close> and \<open>CANCELLED\<close> when the approval
  has a current sequence number and the new key is free.  \<open>escalate\<close> never appends a
  row: it passes no \<open>approver_user\<close>, which the history table requires.
\<close>

lemma get_current_step_seq:
  "get_current_step d self = Some step \<Longrightarrow> \<exists>c. current_step_sequence self = Some c \<and> c \<noteq> 0"
  by (auto simp: get_current_step_def split: option.splits if_splits)

lemma Approval_save_history: "approval_history (snd (Approval_save now self d)) = approval_history d"
  by (simp add: Approval_save_def Let_def)

lemma advance_history:
  "approval_history (snd (snd (advance_to_next_step now self d))) = approval_history d"
  by (auto simp: advance_to_next_step_def Approval_save_def Let_def split: option.splits prod.splits)

lemma approve_step_audit_row:
  assumes "approve_step now new_id approval user comments ip d = (Inr b, approval', d')"
  shows "\<exists>step c. get_current_step d approval = Some step \<and> current_step_sequence approval = Some c
     \<and> approval_history d' = approval_history d @
         [\<lparr>h_id = new_id, h_approval = a_id approval, h_step_sequence = c,
           h_approver_role = approver_role step, h_approver_user = user, h_action = ''APPROVED'',
           h_action_date = now, h_delegated_to_user = None, h_comments = comments,
           h_ip_address = ip, h_created_at = now\<rparr>]"
proof -
  from assms obtain step where step: "get_current_step d approval = Some step"
    by (auto simp: approve_step_def split: option.splits)
  from get_current_step_seq [OF step] obtain c where c: "current_step_sequence approval = Some c" by blast
  from assms step c obtain d1 where d1:
    "ApprovalHistory_create now new_id (a_id approval) (Some c) (approver_role step) (Some user)
       ''APPROVED'' comments ip d = Inr d1"
    and r: "advance_to_next_step now approval d1 = (\<not> b, approval', d')"
    by (auto simp: approve_step_def split: if_splits sum.splits prod.splits)
  from d1 have h1: "approval_history d1 = approval_history d @
         [\<lparr>h_id = new_id, h_approval = a_id approval, h_step_sequence = c,
           h_approver_role = approver_role step, h_approver_user = user, h_action = ''APPROVED'',
           h_action_date = now, h_delegated_to_user = None, h_comments = comments,
           h_ip_address = ip, h_created_at = now\<rparr>]"
    by (auto simp: ApprovalHistory_create_def split: if_splits)
  have "approval_history d' = approval_history d1"
    using advance_history [of now approval d1] r by simp
  with h1 step c show ?thesis by simp
qed

lemma reject_audit_row:
  assumes "current_step_sequence self = Some c" "\<not> (\<exists>r \<in> set (approval_history d). h_id r = new_id)"
  shows "\<exists>self' d'. reject now new_id self user comments d = (Inr (), self', d')
     \<and> approval_history d' = approval_history d @
         [\<lparr>h_id = new_id, h_approval = a_id self, h_step_sequence = c,
           h_approver_role = None, h_approver_user = user, h_action = ''REJECTED'',
           h_action_date = now, h_delegated_to_user = None, h_comments = comments,
           h_ip_address = None, h_created_at = now\<rparr>]"
  using assms
  by (simp add: reject_def Approval_save_def ApprovalHistory_create_def Let_def)

lemma cancel_audit_row:
  assumes "current_step_sequence self = Some c" "\<not> (\<exists>r \<in> set (approval_history d). h_id r = new_id)"
  shows "\<exists>self' d'. cancel now new_id self user reason d = (Inr (), self', d')
     \<and> approval_history d' = approval_history d @
         [\<lparr>h_id = new_id, h_approval = a_id self, h_step_sequence = c,
           h_approver_role = None, h_approver_user = user, h_action = ''CANCELLED'',
           h_action_date = now, h_delegated_to_user = None, h_comments = reason,
           h_ip_address = None, h_created_at = now\<rparr>]"
  using assms
  by (simp add: cancel_def Approval_save_def ApprovalHistory_create_def Let_def)

lemma escalate_never_writes_history:
  "approval_history (snd (snd (escalate now new_id self d))) = approval_history d"
  by (auto simp: escalate_def Approval_save_def ApprovalHistory_create_def Let_def
           split: option.splits prod.splits sum.splits)

lemma escalate_raises:
  assumes "get_current_step d self = Some step" "escalation_role step = Some role"
  shows "fst (escalate now new_id self d) = Inl IntegrityError"
  using assms
  by (auto simp: escalate_def ApprovalHistory_create_def Let_def split: prod.splits option.splits)

text \<open>
  C5 at an approval whose current step has an escalation role: \<open>escalate\<close> saves the
  status \<open>ESCALATED\<close> and then raises \<open>IntegrityError\<close>; the history table stays
  empty.
\<close>

theorem escalate_writes_no_audit_row:
  "escalate 2000 900 example_approval example_db =
     (Inl IntegrityError,
      example_approval\<lparr>a_status := ''ESCALATED'', a_updated_at := 2000\<rparr>,
      example_db\<lparr>approvals := [example_approval\<lparr>a_status := ''ESCALATED'', a_updated_at := 2000\<rparr>]\<rparr>)"
proof -
  have e: "escalation_role example_step1 = Some 60"
    by (simp add: example_step1_def)
  show ?thesis
    unfolding escalate_def example_current_step
    by (simp add: e ApprovalHistory_create_def Approval_save_def Let_def example_approval_def
          example_db_def)
qed

section \<open>Approval creation on save\<close>

lemma Approval_save_last:
  assumes "approvals d = xs @ [a0]" "a_id a0 = a_id self" "\<forall>r \<in> set xs. a_id r \<noteq> a_id self"
  shows "approvals (snd (Approval_save now self d)) = xs @ [self\<lparr>a_updated_at := now\<rparr>]"
proof -
  have "map (\<lambda>r. if a_id r = a_id self then self\<lparr>a_updated_at := now\<rparr> else r) xs = xs"
    using assms(3) by (induction xs) auto
  then show ?thesis using assms(1,2) by (simp add: Approval_save_def Let_def)
qed

lemma advance_last:
  assumes "approvals d = xs @ [self]" "\<forall>r \<in> set xs. a_id r \<noteq> a_id self"
  shows "\<exists>a'. approvals (snd (snd (advance_to_next_step now self d))) = xs @ [a']
            \<and> entity_type a' = entity_type self \<and> entity_id a' = entity_id self"
proof -
  have sv: "\<And>s. a_id s = a_id self \<Longrightarrow>
      approvals (snd (Approval_save now s d)) = xs @ [s\<lparr>a_updated_at := now\<rparr>]"
    using Approval_save_last [OF assms(1)] assms(2) by simp
  show ?thesis
    using assms(1) sv
    by (auto simp: advance_to_next_step_def Let_def split: option.splits prod.splits)
qed

lemma create_approval_cases:
  "snd (create_approval now new_id etype eid enumber req_by val rmk d) = d
   \<or> (\<exists>w. \<not> (\<exists>r \<in> set (approvals d). a_id r = new_id)
          \<and> snd (create_approval now new_id etype eid enumber req_by val rmk d) =
              snd (snd (advance_to_next_step now
                     (new_approval now new_id etype eid enumber req_by val rmk w)
                     (d\<lparr>approvals := approvals d @
                          [new_approval now new_id etype eid enumber req_by val rmk w]\<rparr>))))"
proof -
  define workflows0 where "workflows0 =
     filter (\<lambda>w. wf_entity_type w = etype \<and> wf_is_active w \<and> deleted_at w = None) (approval_workflows d)"
  define workflows where "workflows =
     (if truthy val then filter (\<lambda>w. applies_to_value w (the val)) workflows0 else workflows0)"
  define workflow where "workflow =
     (case first (filter is_default workflows) of Some w \<Rightarrow> Some w | None \<Rightarrow> first workflows)"
  have unf: "create_approval now new_id etype eid enumber req_by val rmk d =
     (case workflow of
           None \<Rightarrow> (Inl (ValidationError (''No active workflow found for '' @ etype)), d)
         | Some w \<Rightarrow>
             if \<exists>r \<in> set (approvals d). a_id r = new_id then (Inl IntegrityError, d)
             else
               (let approval = new_approval now new_id etype eid enumber req_by val rmk w;
                    d1 = d\<lparr>approvals := approvals d @ [approval]\<rparr>;
                    (b, approval', d2) = advance_to_next_step now approval d1
                in (Inr approval', d2)))"
    unfolding create_approval_def workflow_def workflows_def workflows0_def new_approval_def Let_def
    by (rule refl)
  show ?thesis
  proof (cases workflow)
    case None
    then show ?thesis by (simp add: unf)
  next
    case (Some w)
    show ?thesis
    proof (cases "\<exists>r \<in> set (approvals d). a_id r = new_id")
      case True
      then show ?thesis using Some by (simp add: unf)
    next
      case False
      then have "snd (create_approval now new_id etype eid enumber req_by val rmk d) =
              snd (snd (advance_to_next_step now
                     (new_approval now new_id etype eid enumber req_by val rmk w)
                     (d\<lparr>approvals := approvals d @
                          [new_approval now new_id etype eid enumber req_by val rmk w]\<rparr>)))"
        using Some by (simp add: unf Let_def split: prod.splits)
      with False show ?thesis by blast
    qed
  qed
qed

lemma create_approval_appends:
  "approvals (snd (create_approval now new_id etype eid enumber req_by val rmk d)) = approvals d
   \<or> (\<exists>a'. approvals (snd (create_approval now new_id etype eid enumber req_by val rmk d))
              = approvals d @ [a']
          \<and> entity_type a' = etype \<and> entity_id a' = eid)"
proof -
  from create_approval_cases [of now new_id etype eid enumber req_by val rmk d]
  show ?thesis
  proof
    assume "snd (create_approval now new_id etype eid enumber req_by val rmk d) = d"
    then show ?thesis by simp
  next
    assume "\<exists>w. \<not> (\<exists>r \<in> set (approvals d). a_id r = new_id)
          \<and> snd (create_approval now new_id etype eid enumber req_by val rmk d) =
              snd (snd (advance_to_next_step now
                     (new_approval now new_id etype eid enumber req_by val rmk w)
                     (d\<lparr>approvals := approvals d @
                          [new_approval now new_id etype eid enumber req_by val rmk w]\<rparr>)))"
    then obtain w where fresh: "\<not> (\<exists>r \<in> set (approvals d). a_id r = new_id)"
      and eq: "snd (create_approval now new_id etype eid enumber req_by val rmk d) =
              snd (snd (advance_to_next_step now
                     (new_approval now new_id etype eid enumber req_by val rmk w)
                     (d\<lparr>approvals := approvals d @
                          [new_approval now new_id etype eid enumber req_by val rmk w]\<rparr>)))"
      by blast
    let ?a = "new_approval now new_id etype eid enumber req_by val rmk w"
    have "\<exists>a'. approvals (snd (snd (advance_to_next_step now ?a (d\<lparr>approvals := approvals d @ [?a]\<rparr>))))
            = approvals d @ [a'] \<and> entity_type a' = entity_type ?a \<and> entity_id a' = entity_id ?a"
      by (rule advance_last) (use fresh in \<open>auto simp: new_approval_def\<close>)
    then show ?thesis
      unfolding eq by (simp add: new_approval_def)
  qed
qed

lemma auto_create_count:
  "length (pr_approvals (pk instance) (auto_create_pr_approval now new_id instance d))
     \<le> max 1 (length (pr_approvals (pk instance) d))"
proof (cases "pr_status instance = ''SUBMITTED''
    \<and> \<not> (\<exists>r \<in> set (approvals d). entity_type r = ''PR'' \<and> entity_id r = pk instance)")
  case False
  then have "auto_create_pr_approval now new_id instance d = d"
    by (auto simp: auto_create_pr_approval_def)
  then show ?thesis by simp
next
  case True
  then have none: "pr_approvals (pk instance) d = []"
    by (auto simp: pr_approvals_def filter_empty_conv)
  let ?d' = "snd (create_approval now new_id ''PR'' (pk instance) (Some (pr_number instance))
                     (requester instance) (total_estimated_value instance)
                     (justification instance) d)"
  have eq: "auto_create_pr_approval now new_id instance d = ?d'"
    using True by (auto simp: auto_create_pr_approval_def)
  from create_approval_appends [of now new_id "''PR''" "pk instance" "Some (pr_number instance)"
      "requester instance" "total_estimated_value instance" "justification instance" d]
  have "length (pr_approvals (pk instance) ?d') \<le> 1"
    using none by (auto simp: pr_approvals_def)
  then show ?thesis unfolding eq by simp
qed

lemma auto_create_other:
  "q \<noteq> pk instance \<Longrightarrow>
   pr_approvals q (auto_create_pr_approval now new_id instance d) = pr_approvals q d"
proof -
  assume q: "q \<noteq> pk instance"
  let ?d' = "snd (create_approval now new_id ''PR'' (pk instance) (Some (pr_number instance))
                     (requester instance) (total_estimated_value instance)
                     (justification instance) d)"
  from create_approval_appends [of now new_id "''PR''" "pk instance" "Some (pr_number instance)"
      "requester instance" "total_estimated_value instance" "justification instance" d]
  have "pr_approvals q ?d' = pr_approvals q d"
    using q by (auto simp: pr_approvals_def)
  then show ?thesis by (simp add: auto_create_pr_approval_def)
qed

lemma post_saves_count:
  "(\<forall>ev \<in> set evs. pk (snd (snd ev)) = p) \<Longrightarrow> length (pr_approvals p d) \<le> 1 \<Longrightarrow>
   length (pr_approvals p (post_saves evs d)) \<le> 1"
proof (induction evs arbitrary: d)
  case Nil
  then show ?case by simp
next
  case (Cons ev evs)
  obtain now new_id inst where ev: "ev = (now, new_id, inst)" by (cases ev) auto
  with Cons.prems(1) have p: "pk inst = p" by simp
  have "length (pr_approvals p (auto_create_pr_approval now new_id inst d)) \<le> 1"
    using auto_create_count [of inst now new_id d] Cons.prems(2) p by simp
  then show ?case using Cons.IH Cons.prems(1) ev by simp
qed

text \<open>
  C7.  When at most one approval of type \<open>PR\<close> exists for a purchase request, it is still
  at most one after any number of saves of that purchase request, whatever the status,
  clock and candidate key of each save: the receiver returns the database unchanged
  when such an approval exists, and when the status is not \<open>SUBMITTED\<close>.
\<close>

theorem pr_approval_created_at_most_once:
  "((\<forall>ev \<in> set evs. pk (snd (snd ev)) = p) \<and> length (pr_approvals p d) \<le> 1
      \<longrightarrow> length (pr_approvals p (post_saves evs d)) \<le> 1)
   \<and> ((\<exists>r \<in> set (approvals d). entity_type r = ''PR'' \<and> entity_id r = pk instance)
      \<longrightarrow> auto_create_pr_approval now new_id instance d = d)
   \<and> (pr_status instance \<noteq> ''SUBMITTED'' \<longrightarrow> auto_create_pr_approval now new_id instance d = d)"
  using post_saves_count [of evs p d]
  by (auto simp: auto_create_pr_approval_def)


lemma example_first_save:
  "auto_create_pr_approval 2000 301 example_pr example_db_no_approval =
     example_db\<lparr>approvals := [\<lparr>a_id = 301, entity_type = ''PR'', entity_id = 400,
       entity_number = Some ''PR-2025-0001'', a_workflow = Some 100, current_step_sequence = Some 1,
       requested_by = 2, requested_at = 2000, a_status = ''IN_PROGRESS'', completed_at = None,
       a_remarks = None, a_metadata = Some 1500, a_created_at = 2000, a_updated_at = 2000\<rparr>]\<rparr>"
  by (simp add: auto_create_pr_approval_def create_approval_def advance_to_next_step_def
        Approval_save_def get_steps_def first_def truthy_def applies_to_value_def Let_def
        example_pr_def example_db_no_approval_def example_db_def example_workflow_def
        example_step1_def example_step2_def example_step3_def)


theorem pr_approval_created_at_most_once_witness:
  "length (pr_approvals 400 example_db_no_approval) = 0
   \<and> length (pr_approvals 400
         (post_saves [(2000, 301, example_pr), (3000, 302, example_pr)] example_db_no_approval)) = 1
   \<and> post_saves [(2000, 301, example_pr), (3000, 302, example_pr)] example_db_no_approval =
       auto_create_pr_approval 2000 301 example_pr example_db_no_approval
   \<and> auto_create_pr_approval 3000 302 (example_pr\<lparr>pr_status := ''DRAFT''\<rparr>) example_db_no_approval =
       example_db_no_approval"
proof -
  let ?d1 = "auto_create_pr_approval 2000 301 example_pr example_db_no_approval"
  have ex: "\<exists>r \<in> set (approvals ?d1). entity_type r = ''PR'' \<and> entity_id r = pk example_pr"
  proof -
    have "pk example_pr = 400" by (simp add: example_pr_def)
    then show ?thesis unfolding example_first_save by simp
  qed
  have second: "auto_create_pr_approval 3000 302 example_pr ?d1 = ?d1"
    using pr_approval_created_at_most_once [of "[]" 400 ?d1 example_pr 3000 302] ex by blast
  have draft: "auto_create_pr_approval 3000 302 (example_pr\<lparr>pr_status := ''DRAFT''\<rparr>) example_db_no_approval =
       example_db_no_approval"
    using pr_approval_created_at_most_once
      [of "[]" 400 example_db_no_approval "example_pr\<lparr>pr_status := ''DRAFT''\<rparr>" 3000 302]
    by simp
  have both: "post_saves [(2000, 301, example_pr), (3000, 302, example_pr)] example_db_no_approval = ?d1"
    by (simp add: second)
  have none: "length (pr_approvals 400 example_db_no_approval) = 0"
    by (simp add: pr_approvals_def example_db_no_approval_def)
  have one: "length (pr_approvals 400 ?d1) = 1"
    by (simp add: example_first_save pr_approvals_def)
  show ?thesis
    using none one both draft by simp
qed

section \<open>Reversing a stock movement\<close>

lemma before_save_keeps:
  "m_id (StockMovement_before_save s) = m_id s"
  "is_reversed (StockMovement_before_save s) = is_reversed s"
  "reversed_by (StockMovement_before_save s) = reversed_by s"
  "reversed_at (StockMovement_before_save s) = reversed_at s"
  "m_item (StockMovement_before_save s) = m_item s"
  "from_location (StockMovement_before_save s) = from_location s"
  "to_location (StockMovement_before_save s) = to_location s"
  "movement_type (StockMovement_before_save s) = movement_type s"
  "quantity (StockMovement_before_save s) = quantity s"
  "m_uom (StockMovement_before_save s) = m_uom s"
  "m_unit_cost (StockMovement_before_save s) = m_unit_cost s"
  "m_batch (StockMovement_before_save s) = m_batch s"
  "serial_no (StockMovement_before_save s) = serial_no s"
  by (simp_all add: StockMovement_before_save_def Let_def)

lemma before_save_fields:
  "StockMovement_before_save s =
     s\<lparr>m_total_value := (if truthy (m_unit_cost s) \<and> quantity s \<noteq> 0
                          then Some (dec_mul (the (m_unit_cost s)) (quantity s))
                          else m_total_value s),
        fiscal_year := Some (year (transaction_date s)),
        fiscal_month := Some (month (transaction_date s))\<rparr>"
  by (simp add: StockMovement_before_save_def Let_def)

lemma reverse_movement_validation_error:
  "(\<exists>msg. fst (reverse_movement str_uuid now new_id self adding user tbl) = Inl (ValidationError msg))
     \<longleftrightarrow> is_reversed self"
  by (auto simp: reverse_movement_def StockMovement_save_def Let_def split: prod.splits sum.splits if_splits)

lemma reverse_movement_already_reversed:
  "is_reversed self \<Longrightarrow>
   snd (reverse_movement str_uuid now new_id self adding user tbl) = (self, adding, tbl)"
  by (simp add: reverse_movement_def)

lemma reverse_movement_saved:
  assumes "\<not> is_reversed self" "\<not> adding" "\<not> (\<exists>r \<in> set tbl. m_id r = new_id)"
    "\<exists>r \<in> set tbl. m_id r = m_id self"
  shows "\<exists>reverse.
      reverse_movement str_uuid now new_id self adding user tbl =
        (Inr reverse,
         self\<lparr>is_reversed := True, reversed_by := Some user, reversed_at := Some now,
              m_total_value := (if truthy (m_unit_cost self) \<and> quantity self \<noteq> 0
                                then Some (dec_mul (the (m_unit_cost self)) (quantity self))
                                else m_total_value self),
              fiscal_year := Some (year (transaction_date self)),
              fiscal_month := Some (month (transaction_date self))\<rparr>,
         False,
         map (\<lambda>r. if m_id r = m_id self
                  then r\<lparr>is_reversed := True, reversed_by := Some user, reversed_at := Some now\<rparr>
                  else r) tbl @ [reverse])
    \<and> m_id reverse = new_id
    \<and> from_location reverse = to_location self \<and> to_location reverse = from_location self
    \<and> m_item reverse = m_item self \<and> movement_type reverse = movement_type self
    \<and> quantity reverse = quantity self \<and> m_uom reverse = m_uom self
    \<and> m_unit_cost reverse = m_unit_cost self \<and> m_batch reverse = m_batch self
    \<and> serial_no reverse = serial_no self \<and> \<not> is_reversed reverse"
proof -
  have ne: "new_id \<noteq> m_id self" using assms(3,4) by auto
  show ?thesis
    using assms ne
    by (simp add: reverse_movement_def StockMovement_save_def Let_def before_save_keeps)
       (simp add: before_save_fields)
qed

lemma reverse_movement_never_saved:
  assumes "\<not> is_reversed self" "adding" "\<not> (\<exists>r \<in> set tbl. m_id r = new_id)"
    "\<not> (\<exists>r \<in> set tbl. m_id r = m_id self)" "new_id \<noteq> m_id self"
  shows "\<exists>reverse.
      reverse_movement str_uuid now new_id self adding user tbl =
        (Inr reverse,
         self\<lparr>is_reversed := True, reversed_by := Some user, reversed_at := Some now,
              m_total_value := (if truthy (m_unit_cost self) \<and> quantity self \<noteq> 0
                                then Some (dec_mul (the (m_unit_cost self)) (quantity self))
                                else m_total_value self),
              fiscal_year := Some (year (transaction_date self)),
              fiscal_month := Some (month (transaction_date self)),
              transaction_time := now, m_created_at := now\<rparr>,
         False,
         tbl @ [reverse,
                self\<lparr>is_reversed := True, reversed_by := Some user, reversed_at := Some now,
                     m_total_value := (if truthy (m_unit_cost self) \<and> quantity self \<noteq> 0
                                       then Some (dec_mul (the (m_unit_cost self)) (quantity self))
                                       else m_total_value self),
                     fiscal_year := Some (year (transaction_date self)),
                     fiscal_month := Some (month (transaction_date self)),
                     transaction_time := now, m_created_at := now\<rparr>])
    \<and> m_id reverse = new_id
    \<and> from_location reverse = to_location self \<and> to_location reverse = from_location self
    \<and> m_item reverse = m_item self \<and> movement_type reverse = movement_type self
    \<and> quantity reverse = quantity self \<and> m_uom reverse = m_uom self
    \<and> m_unit_cost reverse = m_unit_cost self \<and> m_batch reverse = m_batch self
    \<and> serial_no reverse = serial_no self \<and> \<not> is_reversed reverse"
  using assms
  by (simp add: reverse_movement_def StockMovement_save_def Let_def before_save_keeps)
     (simp add: before_save_fields)

text \<open>
  The claim as it stands fails on the instance: \<open>self.save\<close> is \<open>StockMovement.save\<close>,
  which recomputes the total value and the fiscal period before it writes.  The
  movement of 0.333 units at 0.05, loaded with the total value 0.02 of its row, leaves
  \<open>reverse_movement\<close> with the total value 0.01665; its row keeps 0.02.
\<close>

theorem reverse_movement_counterexample:
  "\<not> is_reversed example_small_movement
   \<and> m_total_value example_small_movement = Some (1 / 50)
   \<and> fst (snd (reverse_movement (\<lambda>u. ''510'') 2000 511 example_small_movement False 2
                 [example_small_movement])) =
       example_small_movement\<lparr>is_reversed := True, reversed_by := Some 2, reversed_at := Some 2000,
                                m_total_value := Some (333 / 20000)\<rparr>
   \<and> fst (snd (reverse_movement (\<lambda>u. ''510'') 2000 511 example_small_movement False 2
                 [example_small_movement])) \<noteq>
       example_small_movement\<lparr>is_reversed := True, reversed_by := Some 2, reversed_at := Some 2000\<rparr>
   \<and> hd (snd (snd (snd (reverse_movement (\<lambda>u. ''510'') 2000 511 example_small_movement False 2
                          [example_small_movement])))) =
       example_small_movement\<lparr>is_reversed := True, reversed_by := Some 2, reversed_at := Some 2000\<rparr>"
  by code_simp

text \<open>
  C9, amended.  \<open>reverse_movement\<close> raises \<open>ValidationError\<close> exactly when the movement
  is already reversed, and then leaves the instance and the table as they were.
  Otherwise, with a new key that is free:
  \<^item> for a movement that has been saved or loaded and has its row in the table, the
    table afterwards is the old table, where the rows with the movement's key have
    \<open>is_reversed\<close>, \<open>reversed_by\<close> and \<open>reversed_at\<close> set and every other column and row
    is as before, followed by exactly one new row: the returned movement, with the
    locations swapped and the same item, movement type, quantity, unit, unit cost, batch
    and serial number; the instance has these three fields set and, beyond them, the
    total value (the product of unit cost and quantity, when both are true in Python's
    sense) and the fiscal year and month of the transaction date, which \<open>save\<close>
    recomputes and does not write;
  \<^item> for a movement that was never saved, whose key is free, the original is inserted
    as a second new row after the reversal, with \<open>transaction_time\<close> and \<open>created_at\<close>
    set as well.
\<close>

theorem reverse_movement_reverses_once:
  "((\<exists>msg. fst (reverse_movement str_uuid now new_id self adding user tbl) = Inl (ValidationError msg))
      \<longleftrightarrow> is_reversed self)
   \<and> (is_reversed self \<longrightarrow>
        snd (reverse_movement str_uuid now new_id self adding user tbl) = (self, adding, tbl))
   \<and> (\<not> is_reversed self \<and> \<not> adding \<and> \<not> (\<exists>r \<in> set tbl. m_id r = new_id)
        \<and> (\<exists>r \<in> set tbl. m_id r = m_id self)
        \<longrightarrow> (\<exists>reverse.
              reverse_movement str_uuid now new_id self adding user tbl =
                (Inr reverse,
                 self\<lparr>is_reversed := True, reversed_by := Some user, reversed_at := Some now,
                      m_total_value := (if truthy (m_unit_cost self) \<and> quantity self \<noteq> 0
                                        then Some (dec_mul (the (m_unit_cost self)) (quantity self))
                                        else m_total_value self),
                      fiscal_year := Some (year (transaction_date self)),
                      fiscal_month := Some (month (transaction_date self))\<rparr>,
                 False,
                 map (\<lambda>r. if m_id r = m_id self
                          then r\<lparr>is_reversed := True, reversed_by := Some user, reversed_at := Some now\<rparr>
                          else r) tbl @ [reverse])
            \<and> m_id reverse = new_id
            \<and> from_location reverse = to_location self \<and> to_location reverse = from_location self
            \<and> m_item reverse = m_item self \<and> movement_type reverse = movement_type self
            \<and> quantity reverse = quantity self \<and> m_uom reverse = m_uom self
            \<and> m_unit_cost reverse = m_unit_cost self \<and> m_batch reverse = m_batch self
            \<and> serial_no reverse = serial_no self \<and> \<not> is_reversed reverse))
   \<and> (\<not> is_reversed self \<and> adding \<and> \<not> (\<exists>r \<in> set tbl. m_id r = new_id)
        \<and> \<not> (\<exists>r \<in> set tbl. m_id r = m_id self) \<and> new_id \<noteq> m_id self
        \<longrightarrow> (\<exists>reverse.
              reverse_movement str_uuid now new_id self adding user tbl =
                (Inr reverse,
                 self\<lparr>is_reversed := True, reversed_by := Some user, reversed_at := Some now,
                      m_total_value := (if truthy (m_unit_cost self) \<and> quantity self \<noteq> 0
                                        then Some (dec_mul (the (m_unit_cost self)) (quantity self))
                                        else m_total_value self),
                      fiscal_year := Some (year (transaction_date self)),
                      fiscal_month := Some (month (transaction_date self)),
                      transaction_time := now, m_created_at := now\<rparr>,
                 False,
                 tbl @ [reverse,
                        self\<lparr>is_reversed := True, reversed_by := Some user, reversed_at := Some now,
                             m_total_value := (if truthy (m_unit_cost self) \<and> quantity self \<noteq> 0
                                               then Some (dec_mul (the (m_unit_cost self)) (quantity self))
                                               else m_total_value self),
                             fiscal_year := Some (year (transaction_date self)),
                             fiscal_month := Some (month (transaction_date self)),
                             transaction_time := now, m_created_at := now\<rparr>])
            \<and> m_id reverse = new_id
            \<and> from_location reverse = to_location self \<and> to_location reverse = from_location self
            \<and> m_item reverse = m_item self \<and> movement_type reverse = movement_type self
            \<and> quantity reverse = quantity self \<and> m_uom reverse = m_uom self
            \<and> m_unit_cost reverse = m_unit_cost self \<and> m_batch reverse = m_batch self
            \<and> serial_no reverse = serial_no self \<and> \<not> is_reversed reverse))"
proof (intro conjI impI)
  show "(\<exists>msg. fst (reverse_movement str_uuid now new_id self adding user tbl) = Inl (ValidationError msg))
      \<longleftrightarrow> is_reversed self"
    by (rule reverse_movement_validation_error)
next
  assume "is_reversed self"
  then show "snd (reverse_movement str_uuid now new_id self adding user tbl) = (self, adding, tbl)"
    by (rule reverse_movement_already_reversed)
next
  assume a: "\<not> is_reversed self \<and> \<not> adding \<and> \<not> (\<exists>r \<in> set tbl. m_id r = new_id)
        \<and> (\<exists>r \<in> set tbl. m_id r = m_id self)"
  show "\<exists>reverse.
              reverse_movement str_uuid now new_id self adding user tbl =
                (Inr reverse,
                 self\<lparr>is_reversed := True, reversed_by := Some user, reversed_at := Some now,
                      m_total_value := (if truthy (m_unit_cost self) \<and> quantity self \<noteq> 0
                                        then Some (dec_mul (the (m_unit_cost self)) (quantity self))
                                        else m_total_value self),
                      fiscal_year := Some (year (transaction_date self)),
                      fiscal_month := Some (month (transaction_date self))\<rparr>,
                 False,
                 map (\<lambda>r. if m_id r = m_id self
                          then r\<lparr>is_reversed := True, reversed_by := Some user, reversed_at := Some now\<rparr>
                          else r) tbl @ [reverse])
            \<and> m_id reverse = new_id
            \<and> from_location reverse = to_location self \<and> to_location reverse = from_location self
            \<and> m_item reverse = m_item self \<and> movement_type reverse = movement_type self
            \<and> quantity reverse = quantity self \<and> m_uom reverse = m_uom self
            \<and> m_unit_cost reverse = m_unit_cost self \<and> m_batch reverse = m_batch self
            \<and> serial_no reverse = serial_no self \<and> \<not> is_reversed reverse"
    by (rule reverse_movement_saved) (use a in simp_all)
next
  assume a: "\<not> is_reversed self \<and> adding \<and> \<not> (\<exists>r \<in> set tbl. m_id r = new_id)
        \<and> \<not> (\<exists>r \<in> set tbl. m_id r = m_id self) \<and> new_id \<noteq> m_id self"
  show "\<exists>reverse.
              reverse_movement str_uuid now new_id self adding user tbl =
                (Inr reverse,
                 self\<lparr>is_reversed := True, reversed_by := Some user, reversed_at := Some now,
                      m_total_value := (if truthy (m_unit_cost self) \<and> quantity self \<noteq> 0
                                        then Some (dec_mul (the (m_unit_cost self)) (quantity self))
                                        else m_total_value self),
                      fiscal_year := Some (year (transaction_date self)),
                      fiscal_month := Some (month (transaction_date self)),
                      transaction_time := now, m_created_at := now\<rparr>,
                 False,
                 tbl @ [reverse,
                        self\<lparr>is_reversed := True, reversed_by := Some user, reversed_at := Some now,
                             m_total_value := (if truthy (m_unit_cost self) \<and> quantity self \<noteq> 0
                                               then Some (dec_mul (the (m_unit_cost self)) (quantity self))
                                               else m_total_value self),
                             fiscal_year := Some (year (transaction_date self)),
                             fiscal_month := Some (month (transaction_date self)),
                             transaction_time := now, m_created_at := now\<rparr>])
            \<and> m_id reverse = new_id
            \<and> from_location reverse = to_location self \<and> to_location reverse = from_location self
            \<and> m_item reverse = m_item self \<and> movement_type reverse = movement_type self
            \<and> quantity reverse = quantity self \<and> m_uom reverse = m_uom self
            \<and> m_unit_cost reverse = m_unit_cost self \<and> m_batch reverse = m_batch self
            \<and> serial_no reverse = serial_no self \<and> \<not> is_reversed reverse"
    by (rule reverse_movement_never_saved) (use a in simp_all)
qed

theorem reverse_movement_reverses_once_witness:
  "\<not> is_reversed example_movement
   \<and> (\<exists>reverse.
         reverse_movement (\<lambda>u. ''500'') 2000 501 example_movement False 2 [example_movement] =
           (Inr reverse,
            example_movement\<lparr>is_reversed := True, reversed_by := Some 2, reversed_at := Some 2000\<rparr>,
            False,
            [example_movement\<lparr>is_reversed := True, reversed_by := Some 2, reversed_at := Some 2000\<rparr>,
             reverse])
       \<and> m_id reverse = 501 \<and> from_location reverse = Some 20 \<and> to_location reverse = None
       \<and> m_item reverse = 10 \<and> movement_type reverse = ''PURCHASE_IN'' \<and> quantity reverse = 5 / 2
       \<and> m_uom reverse = 50 \<and> m_unit_cost reverse = Some 4 \<and> m_batch reverse = Some 40
       \<and> serial_no reverse = None)
   \<and> (\<exists>reverse.
         reverse_movement (\<lambda>u. ''500'') 2000 501 example_movement True 2 [] =
           (Inr reverse,
            example_movement\<lparr>is_reversed := True, reversed_by := Some 2, reversed_at := Some 2000,
                              transaction_time := 2000, m_created_at := 2000\<rparr>,
            False,
            [reverse,
             example_movement\<lparr>is_reversed := True, reversed_by := Some 2, reversed_at := Some 2000,
                               transaction_time := 2000, m_created_at := 2000\<rparr>])
       \<and> m_id reverse = 501 \<and> from_location reverse = Some 20 \<and> to_location reverse = None)
   \<and> snd (reverse_movement (\<lambda>u. ''500'') 3000 502 (example_movement\<lparr>is_reversed := True\<rparr>) False 2
            [example_movement]) =
       (example_movement\<lparr>is_reversed := True\<rparr>, False, [example_movement])"
proof -
  have n: "\<not> is_reversed example_movement"
    by (simp add: example_movement_def)
  have m: "dec_mul 4 (5 / 2) = 10"
    by code_simp
  have e1: "example_movement\<lparr>is_reversed := True, reversed_by := Some 2, reversed_at := Some 2000,
             m_total_value := (if truthy (m_unit_cost example_movement) \<and> quantity example_movement \<noteq> 0
                               then Some (dec_mul (the (m_unit_cost example_movement))
                                            (quantity example_movement))
                               else m_total_value example_movement),
             fiscal_year := Some (year (transaction_date example_movement)),
             fiscal_month := Some (month (transaction_date example_movement))\<rparr>
           = example_movement\<lparr>is_reversed := True, reversed_by := Some 2, reversed_at := Some 2000\<rparr>"
    by (simp add: example_movement_def truthy_def m)
  have e2: "example_movement\<lparr>is_reversed := True, reversed_by := Some 2, reversed_at := Some 2000,
             m_total_value := (if truthy (m_unit_cost example_movement) \<and> quantity example_movement \<noteq> 0
                               then Some (dec_mul (the (m_unit_cost example_movement))
                                            (quantity example_movement))
                               else m_total_value example_movement),
             fiscal_year := Some (year (transaction_date example_movement)),
             fiscal_month := Some (month (transaction_date example_movement)),
             transaction_time := 2000, m_created_at := 2000\<rparr>
           = example_movement\<lparr>is_reversed := True, reversed_by := Some 2, reversed_at := Some 2000,
                              transaction_time := 2000, m_created_at := 2000\<rparr>"
    by (simp add: example_movement_def truthy_def m)
  have v: "to_location example_movement = Some 20"
    "from_location example_movement = None" "m_item example_movement = 10"
    "movement_type example_movement = ''PURCHASE_IN''" "quantity example_movement = 5 / 2"
    "m_uom example_movement = 50" "m_unit_cost example_movement = Some 4"
    "m_batch example_movement = Some 40" "serial_no example_movement = None"
    by (simp_all add: example_movement_def)
  have h1: "\<not> is_reversed example_movement \<and> \<not> False
            \<and> \<not> (\<exists>r \<in> set [example_movement]. m_id r = 501)
            \<and> (\<exists>r \<in> set [example_movement]. m_id r = m_id example_movement)"
    by (simp add: example_movement_def)
  have h2: "\<not> is_reversed example_movement \<and> True
            \<and> \<not> (\<exists>r \<in> set []. m_id r = (501 :: uuid))
            \<and> \<not> (\<exists>r \<in> set []. m_id r = m_id example_movement) \<and> 501 \<noteq> m_id example_movement"
    by (simp add: example_movement_def)
  have h3: "is_reversed (example_movement\<lparr>is_reversed := True\<rparr>)"
    by simp
  note saved = reverse_movement_reverses_once
            [where str_uuid = "\<lambda>u. ''500''" and now = 2000 and new_id = 501 and self = example_movement
               and adding = False and user = 2 and tbl = "[example_movement]",
             THEN conjunct2, THEN conjunct2, THEN conjunct1, rule_format, OF h1]
  note never = reverse_movement_reverses_once
            [where str_uuid = "\<lambda>u. ''500''" and now = 2000 and new_id = 501 and self = example_movement
               and adding = True and user = 2 and tbl = "[]",
             THEN conjunct2, THEN conjunct2, THEN conjunct2, rule_format, OF h2]
  note again = reverse_movement_reverses_once
            [where str_uuid = "\<lambda>u. ''500''" and now = 3000 and new_id = 502
               and self = "example_movement\<lparr>is_reversed := True\<rparr>"
               and adding = False and user = 2 and tbl = "[example_movement]",
             THEN conjunct2, THEN conjunct1, rule_format, OF h3]
  have tb: "map (\<lambda>r. if m_id r = m_id example_movement
                     then r\<lparr>is_reversed := True, reversed_by := Some 2, reversed_at := Some 2000\<rparr>
                     else r) [example_movement] @ [rv]
            = [example_movement\<lparr>is_reversed := True, reversed_by := Some 2, reversed_at := Some 2000\<rparr>, rv]"
    for rv
    by simp
  note saved' = saved [unfolded e1 tb, unfolded v]
  note never' = never [unfolded e2 append_Nil, unfolded v]
  have first: "\<exists>reverse.
         reverse_movement (\<lambda>u. ''500'') 2000 501 example_movement False 2 [example_movement] =
           (Inr reverse,
            example_movement\<lparr>is_reversed := True, reversed_by := Some 2, reversed_at := Some 2000\<rparr>,
            False,
            [example_movement\<lparr>is_reversed := True, reversed_by := Some 2, reversed_at := Some 2000\<rparr>,
             reverse])
       \<and> m_id reverse = 501 \<and> from_location reverse = Some 20 \<and> to_location reverse = None
       \<and> m_item reverse = 10 \<and> movement_type reverse = ''PURCHASE_IN'' \<and> quantity reverse = 5 / 2
       \<and> m_uom reverse = 50 \<and> m_unit_cost reverse = Some 4 \<and> m_batch reverse = Some 40
       \<and> serial_no reverse = None"
    using saved' by blast
  have second: "\<exists>reverse.
         reverse_movement (\<lambda>u. ''500'') 2000 501 example_movement True 2 [] =
           (Inr reverse,
            example_movement\<lparr>is_reversed := True, reversed_by := Some 2, reversed_at := Some 2000,
                              transaction_time := 2000, m_created_at := 2000\<rparr>,
            False,
            [reverse,
             example_movement\<lparr>is_reversed := True, reversed_by := Some 2, reversed_at := Some 2000,
                               transaction_time := 2000, m_created_at := 2000\<rparr>])
       \<and> m_id reverse = 501 \<and> from_location reverse = Some 20 \<and> to_location reverse = None"
    using never' by blast
  show ?thesis
    using n first second again by (intro conjI)
qed

section \<open>Depreciation\<close>

lemma context_round_0 [simp]: "context_round 0 = 0"
  by (simp add: context_round_def)

lemma salvage_or_zero:
  "(if truthy (salvage_value self) then the (salvage_value self) else 0) = salvage_of self"
  by (auto simp: truthy_def salvage_of_def split: option.splits)

text \<open>
  The specification's wording of C2 fails for a purchase price of zero, which is not
  null: \<open>calculate_depreciation\<close> returns at once and the book value stays \<open>None\<close>,
  where the specification has it set to zero.
\<close>

theorem straight_line_depreciation_counterexample:
  "depreciation_method example_free_asset = ''STRAIGHT_LINE''
   \<and> purchase_date example_free_asset \<noteq> None \<and> purchase_price example_free_asset \<noteq> None
   \<and> useful_life_years example_free_asset \<noteq> None
   \<and> calculate_depreciation example_today example_free_asset = example_free_asset
   \<and> current_book_value example_free_asset = None
   \<and> current_book_value (claimed_straight_line example_today example_free_asset) = Some 0"
  by (simp add: example_free_asset_def example_asset_def calculate_depreciation_def truthy_def
        claimed_straight_line_def dec_sub_def dec_div_def dec_mul_def Let_def)


text \<open>
  C2, amended.  For an asset with the straight-line method, a purchase date, a purchase
  price that is neither null nor zero and a useful life that is neither null nor zero,
  \<open>calculate_depreciation\<close> sets \<open>accumulated_depreciation\<close> to the minimum of
  \<open>((price - salvage) / life) * years_elapsed\<close> and \<open>price - salvage\<close>, then
  \<open>current_book_value\<close> to the maximum of \<open>price - accumulated_depreciation\<close> and the
  salvage value, and changes no other field; the book value is not below the salvage
  value.  This is what the specification says for such an asset.
\<close>

theorem straight_line_depreciation:
  assumes "depreciation_method self = ''STRAIGHT_LINE''"
    and "purchase_date self = Some pd"
    and "purchase_price self = Some price" and "price \<noteq> 0"
    and "useful_life_years self = Some life" and "life \<noteq> 0"
  shows "accumulated_depreciation (calculate_depreciation today self) =
           min (dec_mul (dec_div (dec_sub price (salvage_of self)) (of_int life)) (years_elapsed today pd))
               (dec_sub price (salvage_of self))
       \<and> current_book_value (calculate_depreciation today self) =
           Some (max (dec_sub price (accumulated_depreciation (calculate_depreciation today self)))
                     (salvage_of self))
       \<and> salvage_of self \<le> the (current_book_value (calculate_depreciation today self))
       \<and> calculate_depreciation today self =
           self\<lparr>accumulated_depreciation := accumulated_depreciation (calculate_depreciation today self),
                current_book_value := current_book_value (calculate_depreciation today self)\<rparr>
       \<and> calculate_depreciation today self = claimed_straight_line today self"
  using assms
  by (simp add: calculate_depreciation_def claimed_straight_line_def calculate_years_since_purchase_def
        years_elapsed_def truthy_def Let_def salvage_or_zero [unfolded truthy_def]
        salvage_of_def split: option.splits)

theorem straight_line_depreciation_witness:
  "depreciation_method example_asset = ''STRAIGHT_LINE''
   \<and> purchase_price example_asset = Some 1000 \<and> useful_life_years example_asset = Some 5
   \<and> salvage_of example_asset = 100
   \<and> years_elapsed example_today \<lparr>year = 2024, month = 1, day = 1\<rparr> =
        1199178644763860369609856263 / 1000000000000000000000000000
   \<and> accumulated_depreciation (calculate_depreciation example_today example_asset) =
        2158521560574948665297741273 / 10000000000000000000000000
   \<and> current_book_value (calculate_depreciation example_today example_asset) =
        Some (7841478439425051334702258727 / 10000000000000000000000000)"
proof -
  have a: "depreciation_method example_asset = ''STRAIGHT_LINE''"
    "purchase_date example_asset = Some \<lparr>year = 2024, month = 1, day = 1\<rparr>"
    "purchase_price example_asset = Some 1000" "(1000::rat) \<noteq> 0"
    "useful_life_years example_asset = Some 5" "(5::int) \<noteq> 0"
    by (simp_all add: example_asset_def)
  have s: "salvage_of example_asset = 100"
    by (simp add: salvage_of_def example_asset_def)
  have y: "years_elapsed example_today \<lparr>year = 2024, month = 1, day = 1\<rparr> =
        1199178644763860369609856263 / 1000000000000000000000000000"
    by code_simp
  have e1: "min (dec_mul (dec_div (dec_sub 1000 100) (of_int 5))
                  (1199178644763860369609856263 / 1000000000000000000000000000))
                (dec_sub 1000 100) = 2158521560574948665297741273 / 10000000000000000000000000"
    by code_simp
  have e2: "max (dec_sub 1000 (2158521560574948665297741273 / 10000000000000000000000000)) 100 =
              7841478439425051334702258727 / 10000000000000000000000000"
    by code_simp
  note t = straight_line_depreciation [OF a, of example_today]
  have acc: "accumulated_depreciation (calculate_depreciation example_today example_asset) =
        2158521560574948665297741273 / 10000000000000000000000000"
    using t unfolding s y e1 by (rule conjunct1)
  have "current_book_value (calculate_depreciation example_today example_asset) =
           Some (max (dec_sub 1000 (accumulated_depreciation (calculate_depreciation example_today example_asset)))
                     (salvage_of example_asset))"
    using t by blast
  then have book: "current_book_value (calculate_depreciation example_today example_asset) =
        Some (7841478439425051334702258727 / 10000000000000000000000000)"
    unfolding acc s e2 .
  show ?thesis
    using a(1,3,5) s y acc book by (intro conjI)
qed

lemma declining_balance_loop_closed:
  "declining_balance_loop n r rate salvage =
     (if \<exists>j < n. (declining_step rate ^^ Suc j) r < salvage then salvage
      else (declining_step rate ^^ n) r)"
proof (induction n arbitrary: r)
  case 0
  then show ?case by simp
next
  case (Suc n)
  have shift: "\<And>j. (declining_step rate ^^ Suc j) (declining_step rate r) =
                   (declining_step rate ^^ Suc (Suc j)) r"
    by (simp add: funpow_swap1)
  have split: "(\<exists>j < Suc n. (declining_step rate ^^ Suc j) r < salvage) \<longleftrightarrow>
      declining_step rate r < salvage
      \<or> (\<exists>j < n. (declining_step rate ^^ Suc j) (declining_step rate r) < salvage)"
  proof
    assume "\<exists>j < Suc n. (declining_step rate ^^ Suc j) r < salvage"
    then obtain j where j: "j < Suc n" "(declining_step rate ^^ Suc j) r < salvage" by blast
    show "declining_step rate r < salvage
      \<or> (\<exists>j < n. (declining_step rate ^^ Suc j) (declining_step rate r) < salvage)"
    proof (cases j)
      case 0
      with j show ?thesis by simp
    next
      case (Suc k)
      with j have "k < n" "(declining_step rate ^^ Suc k) (declining_step rate r) < salvage"
        by (simp_all add: funpow_swap1)
      then show ?thesis by blast
    qed
  next
    assume "declining_step rate r < salvage
      \<or> (\<exists>j < n. (declining_step rate ^^ Suc j) (declining_step rate r) < salvage)"
    then show "\<exists>j < Suc n. (declining_step rate ^^ Suc j) r < salvage"
    proof
      assume "declining_step rate r < salvage"
      then have "(declining_step rate ^^ Suc 0) r < salvage" by simp
      then show ?thesis by blast
    next
      assume "\<exists>j < n. (declining_step rate ^^ Suc j) (declining_step rate r) < salvage"
      then obtain j where "j < n" "(declining_step rate ^^ Suc (Suc j)) r < salvage"
        unfolding shift by blast
      then have "Suc j < Suc n \<and> (declining_step rate ^^ Suc (Suc j)) r < salvage" by simp
      then show ?thesis by blast
    qed
  qed
  have unfold: "declining_balance_loop (Suc n) r rate salvage =
      (if declining_step rate r < salvage then salvage
       else declining_balance_loop n (declining_step rate r) rate salvage)"
    by (simp add: declining_step_def Let_def)
  show ?case
    unfolding unfold Suc.IH split
    by (auto simp: funpow_swap1)
qed

text \<open>
  The specification's wording of C3 fails for a purchase price of zero in the same way.
\<close>

theorem declining_balance_depreciation_counterexample:
  "depreciation_method example_free_declining_asset = ''DECLINING_BALANCE''
   \<and> purchase_date example_free_declining_asset \<noteq> None
   \<and> purchase_price example_free_declining_asset \<noteq> None
   \<and> useful_life_years example_free_declining_asset \<noteq> None
   \<and> calculate_depreciation example_today example_free_declining_asset = example_free_declining_asset
   \<and> current_book_value example_free_declining_asset = None
   \<and> current_book_value (claimed_declining_balance example_today example_free_declining_asset) = Some 0"
proof -
  have c: "current_book_value (claimed_declining_balance example_today example_free_declining_asset) = Some 0"
    by code_simp
  show ?thesis
    unfolding c
    by (simp add: example_free_declining_asset_def example_asset_def calculate_depreciation_def truthy_def)
qed

text \<open>
  C3, amended.  For an asset with the declining balance method, a purchase date, a
  purchase price that is neither null nor zero and a useful life that is neither null
  nor zero: starting from the purchase price, each whole elapsed year takes the
  remaining value \<open>r\<close> to \<open>r - r * (2 / life)\<close>; the first time the result is below the
  salvage value the remaining value is the salvage value and the loop stops.
  \<open>accumulated_depreciation\<close> is the purchase price minus the remaining value and
  \<open>current_book_value\<close> the maximum of \<open>price - accumulated_depreciation\<close> and the
  salvage value; no other field changes.
\<close>

theorem declining_balance_depreciation:
  assumes "depreciation_method self = ''DECLINING_BALANCE''"
    and "purchase_date self = Some pd"
    and "purchase_price self = Some price" and "price \<noteq> 0"
    and "useful_life_years self = Some life" and "life \<noteq> 0"
  shows "(let rate = dec_div 2 (of_int life);
              n = nat (py_int (years_elapsed today pd));
              remaining = (if \<exists>j < n. (declining_step rate ^^ Suc j) price < salvage_of self
                           then salvage_of self
                           else (declining_step rate ^^ n) price)
          in accumulated_depreciation (calculate_depreciation today self) = dec_sub price remaining
           \<and> current_book_value (calculate_depreciation today self) =
               Some (max (dec_sub price (dec_sub price remaining)) (salvage_of self))
           \<and> calculate_depreciation today self =
               self\<lparr>accumulated_depreciation := dec_sub price remaining,
                    current_book_value :=
                      Some (max (dec_sub price (dec_sub price remaining)) (salvage_of self))\<rparr>)"
  using assms
  by (simp add: calculate_depreciation_def calculate_years_since_purchase_def
        years_elapsed_def truthy_def Let_def salvage_or_zero [unfolded truthy_def]
        declining_balance_loop_closed)


theorem declining_balance_depreciation_witness:
  "depreciation_method example_declining_asset = ''DECLINING_BALANCE''
   \<and> purchase_price example_declining_asset = Some (30864 / 25)
   \<and> useful_life_years example_declining_asset = Some 11
   \<and> salvage_of example_declining_asset = 100
   \<and> nat (py_int (years_elapsed example_today \<lparr>year = 2024, month = 1, day = 1\<rparr>)) = 1
   \<and> declining_step (dec_div 2 11) (30864 / 25) =
        505047272727272727272727273 / 500000000000000000000000
   \<and> accumulated_depreciation (calculate_depreciation example_today example_declining_asset) =
        112232727272727272727272727 / 500000000000000000000000
   \<and> current_book_value (calculate_depreciation example_today example_declining_asset) =
        Some (505047272727272727272727273 / 500000000000000000000000)"
proof -
  have a: "depreciation_method example_declining_asset = ''DECLINING_BALANCE''"
    "purchase_date example_declining_asset = Some \<lparr>year = 2024, month = 1, day = 1\<rparr>"
    "purchase_price example_declining_asset = Some (30864 / 25)" "(30864 / 25 :: rat) \<noteq> 0"
    "useful_life_years example_declining_asset = Some 11" "(11::int) \<noteq> 0"
    by (simp_all add: example_declining_asset_def example_asset_def)
  have s: "salvage_of example_declining_asset = 100"
    by (simp add: salvage_of_def example_declining_asset_def example_asset_def)
  have n: "nat (py_int (years_elapsed example_today \<lparr>year = 2024, month = 1, day = 1\<rparr>)) = 1"
    by code_simp
  have st: "declining_step (dec_div 2 11) (30864 / 25) =
        505047272727272727272727273 / 500000000000000000000000"
    by code_simp
  have nc: "\<not> (505047272727272727272727273 / 500000000000000000000000 < (100::rat))"
    by simp
  have e1: "dec_sub (30864 / 25) (505047272727272727272727273 / 500000000000000000000000) =
              112232727272727272727272727 / 500000000000000000000000"
    by code_simp
  have e2: "max (dec_sub (30864 / 25) (112232727272727272727272727 / 500000000000000000000000)) 100 =
              505047272727272727272727273 / 500000000000000000000000"
    by code_simp
  note t = declining_balance_depreciation [OF a, of example_today, unfolded Let_def n s]
  have r: "(if \<exists>j<1. (declining_step (dec_div 2 (rat_of_int 11)) ^^ Suc j) (30864 / 25) < 100 then 100
            else (declining_step (dec_div 2 (rat_of_int 11)) ^^ 1) (30864 / 25)) =
           505047272727272727272727273 / 500000000000000000000000"
    using nc by (simp add: st)
  have acc: "accumulated_depreciation (calculate_depreciation example_today example_declining_asset) =
        112232727272727272727272727 / 500000000000000000000000"
    using t unfolding r e1 by (rule conjunct1)
  have book: "current_book_value (calculate_depreciation example_today example_declining_asset) =
        Some (505047272727272727272727273 / 500000000000000000000000)"
    using t unfolding r e1 e2 by blast
  show ?thesis
    using a(1,3,5) s n st acc book by (intro conjI)
qed

text \<open>
  In \<open>Decimal\<close> arithmetic \<open>r - r * rate\<close> and \<open>r * (1 - rate)\<close> differ in the last
  digit: for a price of 1234.56, a useful life of 11 years and one whole year elapsed the
  code accumulates 224.465454545454545454545454 and the multiplication
  224.465454545454545454545455.
\<close>

lemma declining_balance_rounding_example:
  "accumulated_depreciation (calculate_depreciation example_today example_declining_asset) =
     112232727272727272727272727 / 500000000000000000000000
   \<and> accumulated_depreciation (claimed_declining_balance example_today example_declining_asset) =
     44893090909090909090909091 / 200000000000000000000000"
  by code_simp

section \<open>Decimal arithmetic is exact on short decimals\<close>

lemma pow10_powi: "pow10 e = 10 powi e"
  by (simp add: pow10_def power_int_def inverse_eq_divide power_one_over)

lemma pow10_pos: "0 < pow10 e"
  by (simp add: pow10_def)

lemma pow10_add: "pow10 (a + b) = pow10 a * pow10 b"
  by (simp add: pow10_powi power_int_add)

lemma pow10_mono: "a \<le> b \<Longrightarrow> pow10 a \<le> pow10 b"
  by (simp add: pow10_powi power_int_increasing)

lemma pow10_nat: "pow10 (int n) = 10 ^ n"
  by (simp add: pow10_def)

lemma ndigits_lower: "1 \<le> n \<Longrightarrow> 10 ^ (ndigits n - 1) \<le> n"
proof (induction n rule: ndigits.induct)
  case (1 n)
  show ?case
  proof (cases "n < 10")
    case True
    then have "ndigits n = 1" by (subst ndigits.simps) simp
    with "1.prems" show ?thesis by simp
  next
    case False
    then have "1 \<le> n div 10" by simp
    with "1.IH" False have ih: "10 ^ (ndigits (n div 10) - 1) \<le> n div 10" by simp
    have "ndigits n = Suc (ndigits (n div 10))" using False by (subst ndigits.simps) simp
    moreover have "ndigits (n div 10) \<ge> 1" by (subst ndigits.simps) simp
    ultimately have "ndigits n - 1 = Suc (ndigits (n div 10) - 1)" by simp
    then have "(10::int) ^ (ndigits n - 1) = 10 * 10 ^ (ndigits (n div 10) - 1)" by simp
    also have "\<dots> \<le> 10 * (n div 10)" using ih by simp
    also have "\<dots> \<le> n" by simp
    finally show ?thesis .
  qed
qed

lemma ndigits_upper: "n < 10 ^ ndigits n"
proof (induction n rule: ndigits.induct)
  case (1 n)
  show ?case
  proof (cases "n < 10")
    case True
    then have "ndigits n = 1" by (subst ndigits.simps) simp
    with True show ?thesis by simp
  next
    case False
    with "1.IH" have ih: "n div 10 < 10 ^ ndigits (n div 10)" by simp
    have "ndigits n = Suc (ndigits (n div 10))" using False by (subst ndigits.simps) simp
    then have "(10::int) ^ ndigits n = 10 * 10 ^ ndigits (n div 10)" by simp
    moreover have "n < 10 * (n div 10 + 1)" by simp
    moreover have "10 * (n div 10 + 1) \<le> 10 * 10 ^ ndigits (n div 10)" using ih by simp
    ultimately show ?thesis by linarith
  qed
qed

lemma pow10_adjusted_le:
  assumes "0 < y"
  shows "pow10 (adjusted y) \<le> y"
proof (cases "1 \<le> y")
  case True
  then have f: "1 \<le> \<lfloor>y\<rfloor>" by simp
  have nd: "ndigits \<lfloor>y\<rfloor> \<ge> 1" by (subst ndigits.simps) simp
  have "adjusted y = int (ndigits \<lfloor>y\<rfloor>) - 1"
    using True by (simp add: adjusted_def)
  also have "\<dots> = int (ndigits \<lfloor>y\<rfloor> - 1)" using nd by simp
  finally have "adjusted y = int (ndigits \<lfloor>y\<rfloor> - 1)" .
  then have "pow10 (adjusted y) = 10 ^ (ndigits \<lfloor>y\<rfloor> - 1)"
    by (simp only: pow10_nat)
  also have "\<dots> = of_int (10 ^ (ndigits \<lfloor>y\<rfloor> - 1))" by simp
  also have "\<dots> \<le> of_int \<lfloor>y\<rfloor>" using ndigits_lower [OF f] by (simp only: of_int_le_iff)
  also have "\<dots> \<le> y" by simp
  finally show ?thesis .
next
  case False
  let ?m = "\<lfloor>1 / y\<rfloor>"
  let ?a = "- int (ndigits ?m)"
  show ?thesis
  proof (cases "pow10 (?a + 1) \<le> y")
    case True
    then show ?thesis using False by (simp add: adjusted_def Let_def)
  next
    case no: False
    have "1 / y < of_int ?m + 1" by linarith
    also have "of_int ?m + 1 \<le> (of_int (10 ^ ndigits ?m) :: rat)"
      using ndigits_upper [of ?m] by (metis of_int_1 of_int_add of_int_le_iff zless_imp_add1_zle)
    finally have "1 / y < 10 ^ ndigits ?m" by simp
    then have "1 / 10 ^ ndigits ?m < y"
      using assms by (simp add: field_simps)
    moreover have "pow10 ?a = 1 / 10 ^ ndigits ?m"
      by (simp add: pow10_def)
    ultimately have "pow10 ?a \<le> y" by simp
    then show ?thesis using False no by (simp add: adjusted_def Let_def)
  qed
qed

lemma round_half_even_of_int: "round_half_even (of_int m) = m"
  by (simp add: round_half_even_def)

lemma context_round_exact:
  assumes "\<bar>k\<bar> < 10 ^ 28"
  shows "context_round (of_int k / 10 ^ d) = of_int k / 10 ^ d"
proof (cases "k = 0")
  case True
  then show ?thesis by (simp add: context_round_def)
next
  case False
  let ?x = "of_int k / 10 ^ d :: rat"
  let ?e = "adjusted \<bar>?x\<bar> - (prec - 1)"
  have x0: "?x \<noteq> 0" using False by simp
  have absx: "\<bar>?x\<bar> = of_int \<bar>k\<bar> / 10 ^ d" by simp
  have pos: "0 < \<bar>?x\<bar>" using x0 by simp
  have small: "\<bar>?x\<bar> < pow10 (28 - int d)"
  proof -
    have "(of_int \<bar>k\<bar> :: rat) < of_int (10 ^ 28)" using assms by (simp only: of_int_less_iff)
    then have "(of_int \<bar>k\<bar> :: rat) / 10 ^ d < 10 ^ 28 / 10 ^ d"
      by (simp add: divide_strict_right_mono)
    moreover have "pow10 (28 - int d) = 10 ^ 28 / 10 ^ d"
      using pow10_add [of "28" "- int d"] by (simp add: pow10_def)
    ultimately show ?thesis unfolding absx by simp
  qed
  have "adjusted \<bar>?x\<bar> < 28 - int d"
  proof (rule ccontr)
    assume "\<not> adjusted \<bar>?x\<bar> < 28 - int d"
    then have "pow10 (28 - int d) \<le> pow10 (adjusted \<bar>?x\<bar>)" by (intro pow10_mono) simp
    also have "\<dots> \<le> \<bar>?x\<bar>" by (rule pow10_adjusted_le [OF pos])
    finally show False using small by simp
  qed
  then have e: "?e \<le> - int d" by (simp add: prec_def)
  define n where "n = nat (- int d - ?e)"
  have en: "- int d = ?e + int n" using e by (simp add: n_def)
  have "pow10 (- int d) = pow10 ?e * 10 ^ n"
    unfolding en by (simp add: pow10_add pow10_nat)
  moreover have "pow10 (- int d) = 1 / 10 ^ d" by (simp add: pow10_def)
  ultimately have q: "\<bar>?x\<bar> / pow10 ?e = of_int (\<bar>k\<bar> * 10 ^ n)"
    using pow10_pos [of ?e] unfolding absx by (simp add: field_simps)
  have c: "round_half_even (\<bar>?x\<bar> / pow10 ?e) = \<bar>k\<bar> * 10 ^ n"
    unfolding q by (rule round_half_even_of_int)
  have "context_round ?x = sgn ?x * of_int (\<bar>k\<bar> * 10 ^ n) * pow10 ?e"
    using x0 c by (simp add: context_round_def Let_def)
  also have "\<dots> = sgn ?x * (\<bar>?x\<bar> / pow10 ?e) * pow10 ?e" by (simp only: q)
  also have "\<dots> = sgn ?x * \<bar>?x\<bar>" using pow10_pos [of ?e] by simp
  also have "\<dots> = ?x" by (simp add: sgn_mult_abs)
  finally show ?thesis .
qed


section \<open>Stock valuation\<close>

lemma decimal_columnD:
  assumes "decimal_column m d x"
  shows "\<exists>k::int. \<bar>k\<bar> < 10 ^ m \<and> x = of_int k / 10 ^ d"
proof -
  let ?k = "\<lfloor>x * 10 ^ d\<rfloor>"
  from assms have i: "x * 10 ^ d = of_int ?k" and b: "\<bar>x * 10 ^ d\<bar> < 10 ^ m"
    by (simp_all add: decimal_column_def Let_def)
  from b have "\<bar>(of_int ?k :: rat)\<bar> < of_int (10 ^ m)" unfolding i [symmetric] by simp
  then have "\<bar>?k\<bar> < 10 ^ m" by (metis of_int_abs of_int_less_iff)
  moreover have "x = of_int ?k / 10 ^ d" unfolding i [symmetric] by simp
  ultimately show ?thesis by blast
qed

lemma foldl_dec_add_exact:
  assumes "\<forall>x \<in> set xs. decimal_column 15 d x"
    and "acc = of_int K / 10 ^ d"
    and "\<bar>K\<bar> + int (length xs) * 10 ^ 15 \<le> 10 ^ 28"
  shows "foldl dec_add acc xs = acc + sum_list xs"
  using assms
proof (induction xs arbitrary: acc K)
  case Nil
  then show ?case by simp
next
  case (Cons x xs)
  from Cons.prems(1) obtain k :: int where k: "\<bar>k\<bar> < 10 ^ 15" "x = of_int k / 10 ^ d"
    using decimal_columnD [of 15 d x] by auto
  have sum: "acc + x = of_int (K + k) / 10 ^ d"
    unfolding Cons.prems(2) k(2) by (simp add: add_divide_distrib)
  have bound: "\<bar>K + k\<bar> + int (length xs) * 10 ^ 15 \<le> 10 ^ 28"
    using Cons.prems(3) k(1) by (simp add: algebra_simps)
  have nonneg: "0 \<le> int (length xs) * 10 ^ 15" by simp
  have expand: "int (length (x # xs)) * 10 ^ 15 = int (length xs) * 10 ^ 15 + (10 ^ 15 :: int)"
    by simp
  have "\<bar>K + k\<bar> < 10 ^ 28"
    using Cons.prems(3) k(1) nonneg unfolding expand by linarith
  then have exact: "dec_add acc x = acc + x"
    unfolding dec_add_def sum by (rule context_round_exact)
  have "foldl dec_add (acc + x) xs = (acc + x) + sum_list xs"
    using Cons.prems(1) sum bound by (intro Cons.IH) auto
  then show ?case by (simp add: exact add.assoc)
qed

lemma py_sum_exact:
  assumes "\<forall>x \<in> set xs. decimal_column 15 d x" and "length xs \<le> 10 ^ 13"
  shows "py_sum xs = sum_list xs"
proof -
  have "int (length xs) \<le> 10 ^ 13" using assms(2) by (metis of_nat_le_iff of_nat_numeral of_nat_power)
  then have "\<bar>0::int\<bar> + int (length xs) * 10 ^ 15 \<le> 10 ^ 28" by simp
  then have "foldl dec_add 0 xs = 0 + sum_list xs"
    using assms(1) by (intro foldl_dec_add_exact [where K = 0]) simp_all
  then show ?thesis by (simp add: py_sum_def)
qed

lemma selected_batches_sorted:
  "mset (sort_key b_created_at
      (case location of
         None \<Rightarrow> filter (\<lambda>b. b_item b = item \<and> qty_on_hand b > 0 \<and> b_status b = ''ACTIVE'') tbl
       | Some loc \<Rightarrow> filter (\<lambda>b. b_location b = loc)
           (filter (\<lambda>b. b_item b = item \<and> qty_on_hand b > 0 \<and> b_status b = ''ACTIVE'') tbl)))
   = mset (selected_batches item location tbl)"
  by (cases location) (auto simp: selected_batches_def intro: filter_mset_cong)

lemma sum_list_mset_cong:
  fixes f :: "'a \<Rightarrow> rat"
  shows "mset xs = mset ys \<Longrightarrow> sum_list (map f xs) = sum_list (map f ys)"
  by (metis mset_map sum_mset_sum_list)

lemma valuation_sums:
  assumes cols: "\<forall>b \<in> set tbl. decimal_column 15 3 (qty_on_hand b) \<and> decimal_column 15 2 (b_total_value b)"
    and len: "length tbl \<le> 10 ^ 13"
  shows "get_item_valuation item location tbl =
     (let q = sum_list (map qty_on_hand (selected_batches item location tbl));
          v = sum_list (map b_total_value (selected_batches item location tbl))
      in \<lparr>v_quantity = q, v_value = v, v_avg_cost = (if q > 0 then dec_div v q else 0)\<rparr>)"
proof -
  let ?bs = "sort_key b_created_at
      (case location of
         None \<Rightarrow> filter (\<lambda>b. b_item b = item \<and> qty_on_hand b > 0 \<and> b_status b = ''ACTIVE'') tbl
       | Some loc \<Rightarrow> filter (\<lambda>b. b_location b = loc)
           (filter (\<lambda>b. b_item b = item \<and> qty_on_hand b > 0 \<and> b_status b = ''ACTIVE'') tbl))"
  have m: "mset ?bs = mset (selected_batches item location tbl)"
    by (rule selected_batches_sorted)
  have sub: "set ?bs \<subseteq> set tbl" by (cases location) auto
  have "length ?bs = length (selected_batches item location tbl)"
    using m by (rule mset_eq_length)
  also have "\<dots> \<le> length tbl" by (simp add: selected_batches_def)
  finally have l: "length ?bs \<le> 10 ^ 13" using len by simp
  have q: "py_sum (map qty_on_hand ?bs) = sum_list (map qty_on_hand ?bs)"
    by (rule py_sum_exact [where d = 3]) (use cols sub l in auto)
  have v: "py_sum (map b_total_value ?bs) = sum_list (map b_total_value ?bs)"
    by (rule py_sum_exact [where d = 2]) (use cols sub l in auto)
  have q': "sum_list (map qty_on_hand ?bs) = sum_list (map qty_on_hand (selected_batches item location tbl))"
    using m by (rule sum_list_mset_cong)
  have v': "sum_list (map b_total_value ?bs) = sum_list (map b_total_value (selected_batches item location tbl))"
    using m by (rule sum_list_mset_cong)
  have "get_item_valuation item location tbl =
      (let q = py_sum (map qty_on_hand ?bs); v = py_sum (map b_total_value ?bs)
       in \<lparr>v_quantity = q, v_value = v, v_avg_cost = (if q > 0 then dec_div v q else 0)\<rparr>)"
    by (simp add: get_item_valuation_def Let_def)
  then show ?thesis unfolding q v q' v' .
qed

text \<open>
  C4.  The stock batch table holds column values: \<open>qty_on_hand\<close> is a
  \<open>DecimalField(15, 3)\<close>, \<open>total_value\<close> a \<open>DecimalField(15, 2)\<close>, and there are at most
  \<open>10^13\<close> rows, so that no sum needs more than 28 digits.  Then the quantity that
  \<open>get_item_valuation\<close> returns is the sum of \<open>qty_on_hand\<close> over the item's active
  batches with a positive quantity (at the location when one is given), the value is the
  sum of their \<open>total_value\<close>, the average cost is the value divided by the quantity (a
  \<open>Decimal\<close> division) when the quantity is positive and \<open>0\<close> otherwise, and the result is
  the same for every table with the same rows in another order, so it does not depend on
  the order in which the batches are read.
\<close>

theorem get_item_valuation_sums:
  assumes cols: "\<forall>b \<in> set tbl. decimal_column 15 3 (qty_on_hand b) \<and> decimal_column 15 2 (b_total_value b)"
    and len: "length tbl \<le> 10 ^ 13"
  shows "v_quantity (get_item_valuation item location tbl) =
           sum_list (map qty_on_hand (selected_batches item location tbl))
       \<and> v_value (get_item_valuation item location tbl) =
           sum_list (map b_total_value (selected_batches item location tbl))
       \<and> v_avg_cost (get_item_valuation item location tbl) =
           (if v_quantity (get_item_valuation item location tbl) > 0
            then dec_div (v_value (get_item_valuation item location tbl))
                         (v_quantity (get_item_valuation item location tbl))
            else 0)
       \<and> (\<forall>tbl'. mset tbl' = mset tbl \<longrightarrow>
             get_item_valuation item location tbl' = get_item_valuation item location tbl)"
proof -
  note v = valuation_sums [OF cols len, of item location]
  have perm: "get_item_valuation item location tbl' = get_item_valuation item location tbl"
    if eq: "mset tbl' = mset tbl" for tbl'
  proof -
    have s: "set tbl' = set tbl" using eq by (rule mset_eq_setD)
    have l: "length tbl' = length tbl" using eq by (rule mset_eq_length)
    have v': "get_item_valuation item location tbl' =
     (let q = sum_list (map qty_on_hand (selected_batches item location tbl'));
          v = sum_list (map b_total_value (selected_batches item location tbl'))
      in \<lparr>v_quantity = q, v_value = v, v_avg_cost = (if q > 0 then dec_div v q else 0)\<rparr>)"
      by (rule valuation_sums) (use cols len s l in auto)
    have m: "mset (selected_batches item location tbl') = mset (selected_batches item location tbl)"
      using eq by (simp add: selected_batches_def)
    show ?thesis
      unfolding v v' sum_list_mset_cong [OF m] ..
  qed
  show ?thesis using perm by (simp add: v Let_def)
qed


theorem get_item_valuation_sums_witness:
  "list_all (\<lambda>b. decimal_column 15 3 (qty_on_hand b) \<and> decimal_column 15 2 (b_total_value b))
     example_batches
   \<and> length example_batches \<le> 10 ^ 13
   \<and> get_item_valuation 10 None example_batches =
       \<lparr>v_quantity = 7 / 2, v_value = 1333 / 100,
        v_avg_cost = 3808571428571428571428571429 / 1000000000000000000000000000\<rparr>
   \<and> get_item_valuation 10 None (rev example_batches) = get_item_valuation 10 None example_batches
   \<and> get_item_valuation 10 (Some 20) example_batches =
       \<lparr>v_quantity = 5 / 2, v_value = 10, v_avg_cost = 4\<rparr>
   \<and> get_item_valuation 12 None example_batches =
       \<lparr>v_quantity = 0, v_value = 0, v_avg_cost = 0\<rparr>"
proof -
  have cols: "\<forall>b \<in> set example_batches.
      decimal_column 15 3 (qty_on_hand b) \<and> decimal_column 15 2 (b_total_value b)"
    by (simp add: example_batches_def example_batch_def decimal_column_def)
  have len: "length example_batches \<le> 10 ^ 13"
    by (simp add: example_batches_def)
  have s1: "map qty_on_hand (selected_batches 10 None example_batches) = [5 / 2, 1]"
    "map b_total_value (selected_batches 10 None example_batches) = [10, 333 / 100]"
    by (simp_all add: selected_batches_def example_batches_def example_batch_def)
  have s2: "map qty_on_hand (selected_batches 10 (Some 20) example_batches) = [5 / 2]"
    "map b_total_value (selected_batches 10 (Some 20) example_batches) = [10]"
    by (simp_all add: selected_batches_def example_batches_def example_batch_def)
  have s3: "selected_batches 12 None example_batches = []"
    by (simp add: selected_batches_def example_batches_def example_batch_def)
  have d1: "dec_div (1333 / 100) (7 / 2) =
      3808571428571428571428571429 / 1000000000000000000000000000"
    by code_simp
  have d2: "dec_div 10 (5 / 2) = 4"
    by code_simp
  note t1 = get_item_valuation_sums [OF cols len, of 10 None]
  note t2 = get_item_valuation_sums [OF cols len, of 10 "Some 20"]
  note t3 = get_item_valuation_sums [OF cols len, of 12 None]
  have q1: "v_quantity (get_item_valuation 10 None example_batches) = 7 / 2"
    using t1 [THEN conjunct1] by (simp add: s1)
  have w1: "v_value (get_item_valuation 10 None example_batches) = 1333 / 100"
    using t1 [THEN conjunct2, THEN conjunct1] by (simp add: s1)
  have a1: "v_avg_cost (get_item_valuation 10 None example_batches) =
      3808571428571428571428571429 / 1000000000000000000000000000"
    using t1 [THEN conjunct2, THEN conjunct2, THEN conjunct1] unfolding q1 w1 d1 by simp
  have v1: "get_item_valuation 10 None example_batches =
       \<lparr>v_quantity = 7 / 2, v_value = 1333 / 100,
        v_avg_cost = 3808571428571428571428571429 / 1000000000000000000000000000\<rparr>"
    using q1 w1 a1 by (cases "get_item_valuation 10 None example_batches") simp
  have q2: "v_quantity (get_item_valuation 10 (Some 20) example_batches) = 5 / 2"
    using t2 [THEN conjunct1] by (simp add: s2)
  have w2: "v_value (get_item_valuation 10 (Some 20) example_batches) = 10"
    using t2 [THEN conjunct2, THEN conjunct1] by (simp add: s2)
  have a2: "v_avg_cost (get_item_valuation 10 (Some 20) example_batches) = 4"
    using t2 [THEN conjunct2, THEN conjunct2, THEN conjunct1] unfolding q2 w2 d2 by simp
  have v2: "get_item_valuation 10 (Some 20) example_batches =
       \<lparr>v_quantity = 5 / 2, v_value = 10, v_avg_cost = 4\<rparr>"
    using q2 w2 a2 by (cases "get_item_valuation 10 (Some 20) example_batches") simp
  have q3: "v_quantity (get_item_valuation 12 None example_batches) = 0"
    using t3 [THEN conjunct1] by (simp add: s3)
  have w3: "v_value (get_item_valuation 12 None example_batches) = 0"
    using t3 [THEN conjunct2, THEN conjunct1] by (simp add: s3)
  have a3: "v_avg_cost (get_item_valuation 12 None example_batches) = 0"
    using t3 [THEN conjunct2, THEN conjunct2, THEN conjunct1] unfolding q3 w3 by simp
  have v3: "get_item_valuation 12 None example_batches =
       \<lparr>v_quantity = 0, v_value = 0, v_avg_cost = 0\<rparr>"
    using q3 w3 a3 by (cases "get_item_valuation 12 None example_batches") simp
  have "mset (rev example_batches) = mset example_batches" by simp
  then have r: "get_item_valuation 10 None (rev example_batches) = get_item_valuation 10 None example_batches"
    using t1 by blast
  have c: "list_all (\<lambda>b. decimal_column 15 3 (qty_on_hand b) \<and> decimal_column 15 2 (b_total_value b))
     example_batches"
    using cols by (simp add: list_all_iff)
  show ?thesis
    using c len v1 v2 v3 r by (intro conjI)
qed

text \<open>
  The bound on the digits is needed: sums of \<open>Decimal\<close> values that do not fit in 28
  digits depend on the order of the additions.
\<close>

lemma order_matters_beyond_28_digits:
  "py_sum [10 ^ 28, 5, 5] = 10 ^ 28 \<and> py_sum [5, 5, 10 ^ 28] = 10 ^ 28 + 10"
  by code_simp

end
